theory Spec2Isabelle
  imports Main
begin

section \<open>Data model\<close>

text \<open>
  Strings of the program are modelled as \<open>string\<close>; a character stands for one code unit
  in the Latin-1 range. Exceptions are values: a function that can throw returns
  \<open>exn + 'a\<close>, with \<open>Inl\<close> for the thrown value. Shared mutable state (the user table, the
  session store, the audit table, the updater's flag) is one record \<open>world\<close> that every
  operation takes and returns. The field \<open>trace\<close> of the world records, in order, the calls
  made to the outside: database calls on the user table, hash verifications, session-store
  writes, calls of the audit service and external processes. Calls of the diagnostic
  \<open>Logger\<close> are not modelled.
\<close>

text \<open>
  Modelled from the spec: the \<open>Role\<close> enumeration of the Prisma schema, which is not among
  the sources (spec section 3; the README lists the same six roles).
\<close>

datatype role = OWNER | MANAGER | FRONT_DESK | HOUSEKEEPING | KITCHEN | MAINTENANCE

text \<open>The string a role has at run time (Prisma enums are their names).\<close>

fun role_name :: "role \<Rightarrow> string" where
  "role_name OWNER = ''OWNER''"
| "role_name MANAGER = ''MANAGER''"
| "role_name FRONT_DESK = ''FRONT_DESK''"
| "role_name HOUSEKEEPING = ''HOUSEKEEPING''"
| "role_name KITCHEN = ''KITCHEN''"
| "role_name MAINTENANCE = ''MAINTENANCE''"

text \<open>The \<open>User\<close> row, with the columns the sources read or write.\<close>

record user =
  user_id :: string
  email :: string
  password_hash :: string
  user_role :: role
  first_name :: string
  last_name :: string
  is_active :: bool
  last_login_at :: "nat option"

text \<open>\<open>SessionUser\<close>, the payload kept in the session.\<close>

record session_user =
  su_id :: string
  su_email :: string
  su_role :: role
  firstName :: string
  lastName :: string

record login_dto =
  dto_email :: string
  dto_password :: string

record login_result =
  lr_user :: session_user
  sessionId :: string

text \<open>
  The part of a \<open>FastifyRequest\<close> the sources use: the session identifier, the client
  address, the user-agent header, and \<open>request.user\<close>, which \<open>AuthGuard\<close> sets.
\<close>

record request =
  req_session_id :: string
  req_ip :: string
  req_user_agent :: "string option"
  req_user :: "user option"

text \<open>Thrown values: the Nest exceptions the sources raise, and any other \<open>Error\<close>.\<close>

datatype exn =
    BadRequestException string
  | UnauthorizedException string
  | ForbiddenException string
  | InternalServerErrorException string
  | Error string

fun message :: "exn \<Rightarrow> string" where
  "message (BadRequestException m) = m"
| "message (UnauthorizedException m) = m"
| "message (ForbiddenException m) = m"
| "message (InternalServerErrorException m) = m"
| "message (Error m) = m"

text \<open>\<open>AuditLogInput\<close>; the value snapshots are lists of named strings.\<close>

record audit_log_input =
  action :: string
  resource :: string
  resourceId :: "string option"
  oldValue :: "(string \<times> string) list option"
  newValue :: "(string \<times> string) list option"
  performedById :: "string option"
  ipAddress :: "string option"
  userAgent :: "string option"

datatype effect =
    DbUserFindByEmail string
  | DbUserFindById string
  | DbUserUpdate string
  | Argon2Verify string string
  | SessionSave string
  | SessionDestroy string
  | AuditLog audit_log_input
  | Exec string string

text \<open>
  The world. \<open>sessions\<close> maps a session identifier to the payload of a live session: an
  entry is present exactly as long as the store holds it (its TTL has not elapsed and it
  has not been destroyed), and \<open>sessions w (req_session_id req)\<close> is what a request
  carrying that identifier sees as \<open>req.session.user\<close>. \<open>session_store_err\<close> is the error
  the store answers a write with, if any; \<open>audit_up\<close> tells whether the audit table
  accepts a row.
\<close>

record world =
  users :: "user list"
  sessions :: "string \<rightharpoonup> session_user"
  session_store_err :: "string option"
  audit_up :: bool
  audit_rows :: "audit_log_input list"
  isUpdating :: bool
  trace :: "effect list"

text \<open>
  What the services call outside the repository: \<open>argon2.verify\<close> (the thrown message or
  the verdict), \<open>path.resolve\<close>, \<open>fs.access\<close> (whether it resolves), \<open>fs.stat\<close> (the
  modification time, if the call resolves), the clock, and \<open>exec\<close>: given the calls made
  so far, the command and its working directory, the message of the rejection or the
  pair of standard output and standard error.
\<close>

record env =
  argon2_verify :: "string \<Rightarrow> string \<Rightarrow> string + bool"
  path_resolve :: "string \<Rightarrow> string"
  fs_access :: "string \<Rightarrow> bool"
  fs_stat_mtime :: "string \<Rightarrow> nat option"
  now :: nat
  exec :: "effect list \<Rightarrow> string \<Rightarrow> string \<Rightarrow> string + (string \<times> string)"

section \<open>String primitives\<close>

text \<open>\<open>String.prototype.trim\<close>: the white space of ECMAScript in the Latin-1 range.\<close>

definition js_whitespace :: "char \<Rightarrow> bool" where
  "js_whitespace c \<longleftrightarrow> c \<in> set [CHR 0x09, CHR 0x0A, CHR 0x0B, CHR 0x0C, CHR 0x0D, CHR 0x20, CHR 0xA0]"

definition trim :: "string \<Rightarrow> string" where
  "trim s = rev (dropWhile js_whitespace (rev (dropWhile js_whitespace s)))"

text \<open>\<open>String.prototype.toLowerCase\<close> in the Latin-1 range.\<close>

definition lower_char :: "char \<Rightarrow> char" where
  "lower_char c =
     (let n = (of_char c :: nat)
      in if (65 \<le> n \<and> n \<le> 90) \<or> (192 \<le> n \<and> n \<le> 222 \<and> n \<noteq> 215)
         then char_of (n + 32) else c)"

definition toLowerCase :: "string \<Rightarrow> string" where
  "toLowerCase s = map lower_char s"

text \<open>\<open>Array.prototype.join\<close>.\<close>

fun join :: "string \<Rightarrow> string list \<Rightarrow> string" where
  "join sep [] = []"
| "join sep [x] = x"
| "join sep (x # y # ys) = x @ sep @ join sep (y # ys)"

section \<open>AuditService\<close>

text \<open>
  \<open>AuditService.log\<close>: the row is created; a failure of the write is caught and only
  logged, so the call never throws.
\<close>

definition audit_log :: "audit_log_input \<Rightarrow> world \<Rightarrow> world" where
  "audit_log input w =
     (let w1 = w\<lparr>trace := trace w @ [AuditLog input]\<rparr>
      in if audit_up w1 then w1\<lparr>audit_rows := audit_rows w1 @ [input]\<rparr> else w1)"

definition audit_input :: "string \<Rightarrow> string \<Rightarrow> audit_log_input" where
  "audit_input a r =
     \<lparr>action = a, resource = r, resourceId = None, oldValue = None, newValue = None,
      performedById = None, ipAddress = None, userAgent = None\<rparr>"

section \<open>AuthService\<close>

definition findUniqueByEmail :: "string \<Rightarrow> world \<Rightarrow> user option \<times> world" where
  "findUniqueByEmail e w =
     (find (\<lambda>u. email u = e) (users w), w\<lparr>trace := trace w @ [DbUserFindByEmail e]\<rparr>)"

definition findUniqueById :: "string \<Rightarrow> world \<Rightarrow> user option \<times> world" where
  "findUniqueById i w =
     (find (\<lambda>u. user_id u = i) (users w), w\<lparr>trace := trace w @ [DbUserFindById i]\<rparr>)"

text \<open>
  \<open>AuthService.getSessionUser\<close>: no payload, or a payload whose id is falsy (the empty
  string), gives \<open>null\<close> without a database call; otherwise the user is fetched by id and
  returned only if the row exists and is active.
\<close>

definition getSessionUser :: "request \<Rightarrow> world \<Rightarrow> user option \<times> world" where
  "getSessionUser req w =
     (case sessions w (req_session_id req) of
        None \<Rightarrow> (None, w)
      | Some sessionUser \<Rightarrow>
          if su_id sessionUser = [] then (None, w)
          else
            (case findUniqueById (su_id sessionUser) w of
               (None, w1) \<Rightarrow> (None, w1)
             | (Some u, w1) \<Rightarrow> if \<not> is_active u then (None, w1) else (Some u, w1)))"

text \<open>\<open>argon2.verify\<close>, recorded in the trace.\<close>

definition verify :: "env \<Rightarrow> string \<Rightarrow> string \<Rightarrow> world \<Rightarrow> (string + bool) \<times> world" where
  "verify env h p w = (argon2_verify env h p, w\<lparr>trace := trace w @ [Argon2Verify h p]\<rparr>)"

definition PLACEHOLDER_HASH :: string where
  "PLACEHOLDER_HASH = ''$argon2id$v=19$m=65536,t=3,p=4$placeholder$placeholder''"

text \<open>\<open>req.session.user = sessionUser; await req.session.save()\<close>.\<close>

definition session_save :: "string \<Rightarrow> session_user \<Rightarrow> world \<Rightarrow> (exn + unit) \<times> world" where
  "session_save sid su w =
     (let w1 = w\<lparr>trace := trace w @ [SessionSave sid]\<rparr>
      in case session_store_err w1 of
           Some m \<Rightarrow> (Inl (Error m), w1)
         | None \<Rightarrow> (Inr (), w1\<lparr>sessions := (sessions w1)(sid \<mapsto> su)\<rparr>))"

text \<open>\<open>req.session.destroy\<close>: the callback's error rejects, otherwise the key is gone.\<close>

definition session_destroy :: "string \<Rightarrow> world \<Rightarrow> (exn + unit) \<times> world" where
  "session_destroy sid w =
     (let w1 = w\<lparr>trace := trace w @ [SessionDestroy sid]\<rparr>
      in case session_store_err w1 of
           Some m \<Rightarrow> (Inl (Error m), w1)
         | None \<Rightarrow> (Inr (), w1\<lparr>sessions := (sessions w1)(sid := None)\<rparr>))"

text \<open>
  \<open>prisma.user.update\<close> of \<open>last_login_at\<close>, by id; Prisma throws when no row has the id.
\<close>

definition update_last_login :: "string \<Rightarrow> nat \<Rightarrow> world \<Rightarrow> (exn + unit) \<times> world" where
  "update_last_login i t w =
     (let w1 = w\<lparr>trace := trace w @ [DbUserUpdate i]\<rparr>
      in if \<exists>u \<in> set (users w1). user_id u = i
         then (Inr (), w1\<lparr>users := map (\<lambda>u. if user_id u = i then u\<lparr>last_login_at := Some t\<rparr> else u)
                                        (users w1)\<rparr>)
         else (Inl (Error ''Record to update not found.''), w1))"

text \<open>\<open>AuthService.login\<close>.\<close>

definition login :: "env \<Rightarrow> login_dto \<Rightarrow> request \<Rightarrow> world \<Rightarrow> (exn + login_result) \<times> world" where
  "login env dto req w =
     (case findUniqueByEmail (trim (toLowerCase (dto_email dto))) w of
        (None, w1) \<Rightarrow>
          (case verify env PLACEHOLDER_HASH (dto_password dto) w1 of
             (_, w2) \<Rightarrow> (Inl (UnauthorizedException ''Invalid credentials''), w2))
      | (Some u, w1) \<Rightarrow>
          if \<not> is_active u then (Inl (ForbiddenException ''Account has been deactivated''), w1)
          else
            (case verify env (password_hash u) (dto_password dto) w1 of
               (Inl m, w2) \<Rightarrow> (Inl (Error m), w2)
             | (Inr isValid, w2) \<Rightarrow>
                 if \<not> isValid then
                   (Inl (UnauthorizedException ''Invalid credentials''),
                    audit_log ((audit_input ''USER_LOGIN_FAILED'' ''User'')
                                 \<lparr>resourceId := Some (user_id u),
                                  ipAddress := Some (req_ip req),
                                  userAgent := req_user_agent req\<rparr>) w2)
                 else
                   (let sessionUser =
                          \<lparr>su_id = user_id u, su_email = email u, su_role = user_role u,
                           firstName = first_name u, lastName = last_name u\<rparr>
                    in case session_save (req_session_id req) sessionUser w2 of
                         (Inl e, w3) \<Rightarrow> (Inl e, w3)
                       | (Inr _, w3) \<Rightarrow>
                           (case update_last_login (user_id u) (now env) w3 of
                              (Inl e, w4) \<Rightarrow> (Inl e, w4)
                            | (Inr _, w4) \<Rightarrow>
                                (Inr \<lparr>lr_user = sessionUser, sessionId = req_session_id req\<rparr>,
                                 audit_log ((audit_input ''USER_LOGIN'' ''User'')
                                              \<lparr>resourceId := Some (user_id u),
                                               performedById := Some (user_id u),
                                               ipAddress := Some (req_ip req),
                                               userAgent := req_user_agent req\<rparr>) w4)))))"

text \<open>
  \<open>AuthService.logout\<close>: the payload is read first, the session is destroyed whatever it
  held, and the audit call is made only if there was a payload.
\<close>

definition logout :: "request \<Rightarrow> world \<Rightarrow> (exn + unit) \<times> world" where
  "logout req w =
     (let sessionUser = sessions w (req_session_id req)
      in case session_destroy (req_session_id req) w of
           (Inl e, w1) \<Rightarrow> (Inl e, w1)
         | (Inr _, w1) \<Rightarrow>
             (case sessionUser of
                None \<Rightarrow> (Inr (), w1)
              | Some su \<Rightarrow>
                  (Inr (),
                   audit_log ((audit_input ''USER_LOGOUT'' ''User'')
                                \<lparr>resourceId := Some (su_id su),
                                 performedById := Some (su_id su),
                                 ipAddress := Some (req_ip req),
                                 userAgent := req_user_agent req\<rparr>) w1)))"

text \<open>\<open>AuthService.revokeAllSessionsForUser\<close>: a warning line and one audit call.\<close>

definition revokeAllSessionsForUser :: "string \<Rightarrow> string \<Rightarrow> string option \<Rightarrow> world \<Rightarrow> world" where
  "revokeAllSessionsForUser targetUserId performedBy ipAddr w =
     audit_log ((audit_input ''USER_SESSIONS_REVOKED'' ''User'')
                  \<lparr>resourceId := Some targetUserId,
                   performedById := Some performedBy,
                   ipAddress := ipAddr\<rparr>) w"

section \<open>Guards and the logout route\<close>

text \<open>
  \<open>AuthGuard.canActivate\<close>: a public route passes; otherwise the session user is
  resolved and attached to the request, or the request is rejected.
\<close>

definition AuthGuard_canActivate :: "bool \<Rightarrow> request \<Rightarrow> world \<Rightarrow> (exn + request) \<times> world" where
  "AuthGuard_canActivate isPublic req w =
     (if isPublic then (Inr req, w)
      else
        (case getSessionUser req w of
           (None, w1) \<Rightarrow> (Inl (UnauthorizedException ''Session expired or invalid''), w1)
         | (Some u, w1) \<Rightarrow> (Inr (req\<lparr>req_user := Some u\<rparr>), w1)))"

text \<open>
  \<open>RolesGuard.canActivate\<close>: \<open>requiredRoles\<close> is the route's metadata (\<open>None\<close> when the
  route has none), \<open>usr\<close> is \<open>request.user\<close>.
\<close>

definition RolesGuard_canActivate :: "role list option \<Rightarrow> user option \<Rightarrow> exn + bool" where
  "RolesGuard_canActivate requiredRoles usr =
     (case requiredRoles of
        None \<Rightarrow> Inr True
      | Some rs \<Rightarrow>
          if length rs = 0 then Inr True
          else
            (case usr of
               None \<Rightarrow> Inl (ForbiddenException ''Not authenticated'')
             | Some u \<Rightarrow>
                 if user_role u \<notin> set rs
                 then Inl (ForbiddenException
                             (''Access denied. Required roles: '' @ join '', '' (map role_name rs)))
                 else Inr True))"

text \<open>\<open>AuthController.logout\<close>, behind \<open>AuthGuard\<close> (the route is not public).\<close>

definition AuthController_logout :: "request \<Rightarrow> world \<Rightarrow> (exn + string) \<times> world" where
  "AuthController_logout req w =
     (case AuthGuard_canActivate False req w of
        (Inl e, w1) \<Rightarrow> (Inl e, w1)
      | (Inr req1, w1) \<Rightarrow>
          (case logout req1 w1 of
             (Inl e, w2) \<Rightarrow> (Inl e, w2)
           | (Inr _, w2) \<Rightarrow> (Inr ''Logged out successfully'', w2)))"

section \<open>UpdaterService\<close>

record update_result =
  success :: bool
  "output" :: string
  branch :: string
  commit :: string
  timestamp :: nat

record website_status =
  st_branch :: string
  st_commit :: string
  lastModified :: "nat option"
  isClean :: bool

definition WEBSITE_MOUNT :: string where
  "WEBSITE_MOUNT = ''/mnt/website''"

text \<open>\<open>path.join\<close>, on the normalised segments it is called with.\<close>

definition path_join :: "string list \<Rightarrow> string" where
  "path_join segs = join ''/'' segs"

text \<open>\<open>execAsync\<close>: the process runs and its outcome is what the outside gives.\<close>

definition execAsync :: "env \<Rightarrow> string \<Rightarrow> string \<Rightarrow> world \<Rightarrow> (string + (string \<times> string)) \<times> world" where
  "execAsync env cmd cwd w = (exec env (trace w) cmd cwd, w\<lparr>trace := trace w @ [Exec cmd cwd]\<rparr>)"

text \<open>
  \<open>validateMountPoint\<close>. The inner \<open>try\<close> rethrows its own \<open>BadRequestException\<close> and turns
  the rejection of the first \<open>fs.access\<close> into an \<open>InternalServerErrorException\<close>.
\<close>

definition validateMountPoint :: "env \<Rightarrow> string \<Rightarrow> exn + unit" where
  "validateMountPoint env mountPath =
     (let resolved = path_resolve env mountPath
      in if resolved \<noteq> WEBSITE_MOUNT then Inl (BadRequestException ''Invalid mount path'')
         else if \<not> fs_access env resolved
           then Inl (InternalServerErrorException ''Website mount point is not accessible'')
         else
           (let gitDir = fs_access env (path_join [resolved, ''.git''])
            in if \<not> gitDir
               then Inl (BadRequestException ''Website directory is not a git repository'')
               else Inr ()))"

text \<open>\<open>getGitCommit\<close> and \<open>getGitBranch\<close>: a failed command reads as \<open>unknown\<close>.\<close>

definition getGitCommit :: "env \<Rightarrow> string \<Rightarrow> world \<Rightarrow> string \<times> world" where
  "getGitCommit env cwd w =
     (case execAsync env ''git rev-parse --short HEAD'' cwd w of
        (Inl _, w1) \<Rightarrow> (trim ''unknown'', w1)
      | (Inr (stdout, _), w1) \<Rightarrow> (trim stdout, w1))"

definition getGitBranch :: "env \<Rightarrow> string \<Rightarrow> world \<Rightarrow> string \<times> world" where
  "getGitBranch env cwd w =
     (case execAsync env ''git rev-parse --abbrev-ref HEAD'' cwd w of
        (Inl _, w1) \<Rightarrow> (trim ''unknown'', w1)
      | (Inr (stdout, _), w1) \<Rightarrow> (trim stdout, w1))"

text \<open>The body of the \<open>try\<close> block of \<open>pullWebsiteUpdate\<close>.\<close>

definition pull_try :: "env \<Rightarrow> string \<Rightarrow> string option \<Rightarrow> world \<Rightarrow> (exn + update_result) \<times> world" where
  "pull_try env performedBy ipAddr w =
     (case validateMountPoint env WEBSITE_MOUNT of
        Inl e \<Rightarrow> (Inl e, w)
      | Inr _ \<Rightarrow>
          (case getGitCommit env WEBSITE_MOUNT w of
             (beforeCommit, w1) \<Rightarrow>
               (case execAsync env ''git pull --ff-only'' WEBSITE_MOUNT w1 of
                  (Inl m, w2) \<Rightarrow> (Inl (Error m), w2)
                | (Inr (stdout, stderr), w2) \<Rightarrow>
                    (let out = trim (join [CHR 0x0A] (filter (\<lambda>s. s \<noteq> []) [stdout, stderr]))
                     in case getGitCommit env WEBSITE_MOUNT w2 of
                          (afterCommit, w3) \<Rightarrow>
                            (case getGitBranch env WEBSITE_MOUNT w3 of
                               (br, w4) \<Rightarrow>
                                 (Inr \<lparr>success = True, output = out, branch = br,
                                       commit = afterCommit, timestamp = now env\<rparr>,
                                  audit_log ((audit_input ''WEBSITE_UPDATE'' ''WebsiteSource'')
                                               \<lparr>oldValue := Some [(''commit'', beforeCommit)],
                                                newValue := Some [(''commit'', afterCommit),
                                                                  (''branch'', br),
                                                                  (''output'', out)],
                                                performedById := Some performedBy,
                                                ipAddress := ipAddr\<rparr>) w4))))))"

text \<open>The \<open>try\<close> block with its \<open>catch\<close>: any thrown value is audited and wrapped.\<close>

definition pull_try_catch :: "env \<Rightarrow> string \<Rightarrow> string option \<Rightarrow> world \<Rightarrow> (exn + update_result) \<times> world" where
  "pull_try_catch env performedBy ipAddr w =
     (case pull_try env performedBy ipAddr w of
        (Inr r, w1) \<Rightarrow> (Inr r, w1)
      | (Inl err, w1) \<Rightarrow>
          (Inl (InternalServerErrorException (''Update failed: '' @ message err)),
           audit_log ((audit_input ''WEBSITE_UPDATE_FAILED'' ''WebsiteSource'')
                        \<lparr>newValue := Some [(''error'', message err)],
                         performedById := Some performedBy,
                         ipAddress := ipAddr\<rparr>) w1))"

text \<open>
  \<open>UpdaterService.pullWebsiteUpdate\<close>: the guard on the flag is outside the \<open>try\<close>; the
  \<open>finally\<close> clears the flag after the \<open>try\<close> and its \<open>catch\<close>.
\<close>

definition pullWebsiteUpdate :: "env \<Rightarrow> string \<Rightarrow> string option \<Rightarrow> world \<Rightarrow> (exn + update_result) \<times> world" where
  "pullWebsiteUpdate env performedBy ipAddr w =
     (if isUpdating w then (Inl (BadRequestException ''An update is already in progress''), w)
      else
        (case pull_try_catch env performedBy ipAddr (w\<lparr>isUpdating := True\<rparr>) of
           (r, w1) \<Rightarrow> (r, w1\<lparr>isUpdating := False\<rparr>)))"

text \<open>
  \<open>UpdaterService.getWebsiteStatus\<close>. The three commands of \<open>Promise.all\<close> are started in
  the order written; none of the three promises rejects.
\<close>

definition getWebsiteStatus :: "env \<Rightarrow> world \<Rightarrow> (exn + website_status) \<times> world" where
  "getWebsiteStatus env w =
     (case validateMountPoint env WEBSITE_MOUNT of
        Inl e \<Rightarrow> (Inl e, w)
      | Inr _ \<Rightarrow>
          (case getGitBranch env WEBSITE_MOUNT w of
             (br, w1) \<Rightarrow>
               (case getGitCommit env WEBSITE_MOUNT w1 of
                  (cm, w2) \<Rightarrow>
                    (case execAsync env ''git status --porcelain'' WEBSITE_MOUNT w2 of
                       (r, w3) \<Rightarrow>
                         (let statusOut = (case r of Inl _ \<Rightarrow> [] | Inr (stdout, _) \<Rightarrow> trim stdout);
                              stat = fs_stat_mtime env (path_join [WEBSITE_MOUNT, ''.git'', ''FETCH_HEAD''])
                          in (Inr \<lparr>st_branch = br, st_commit = cm, lastModified = stat,
                                   isClean = (statusOut = [])\<rparr>, w3))))))"

text \<open>The external processes among the calls of a trace.\<close>

fun is_exec :: "effect \<Rightarrow> bool" where
  "is_exec (Exec _ _) = True"
| "is_exec _ = False"

fun is_verify :: "effect \<Rightarrow> bool" where
  "is_verify (Argon2Verify _ _) = True"
| "is_verify _ = False"

text \<open>The audit calls of a trace, by their action tags.\<close>

fun audit_actions :: "effect list \<Rightarrow> string list" where
  "audit_actions [] = []"
| "audit_actions (AuditLog i # es) = action i # audit_actions es"
| "audit_actions (_ # es) = audit_actions es"

section \<open>Concurrent calls of the update trigger\<close>

text \<open>
  Node runs a handler without interruption up to its next \<open>await\<close> on input or output;
  while a call of \<open>pullWebsiteUpdate\<close> waits there, the event loop can start the handlers
  of other requests. The definitions below are \<open>pullWebsiteUpdate\<close> once more, with its
  places of waiting written out: the two \<open>fs.access\<close> of the validation, the four
  commands, and the write of the audit row. A schedule gives, for each place, the calls
  of \<open>pullWebsiteUpdate\<close> (their \<open>performedById\<close> and \<open>ipAddress\<close>) that arrive while the
  first call waits there. An arriving call runs in the world it finds; its result is
  collected. The guard on the flag and the assignment that sets it are in one
  uninterrupted stretch (no \<open>await\<close> between them), so no place of waiting separates them.
\<close>

datatype await_site =
    AwaitAccessMount
  | AwaitAccessGit
  | AwaitRevParseBefore
  | AwaitPull
  | AwaitRevParseAfter
  | AwaitBranch
  | AwaitAudit

fun arrive :: "env \<Rightarrow> (string \<times> string option) list \<Rightarrow> world
                 \<Rightarrow> (exn + update_result) list \<times> world" where
  "arrive env [] w = ([], w)"
| "arrive env (c # cs) w =
     (case pullWebsiteUpdate env (fst c) (snd c) w of
        (r, w1) \<Rightarrow> (case arrive env cs w1 of (rs, w2) \<Rightarrow> (r # rs, w2)))"

text \<open>
  The state of a run: the world, and the results of the calls that have arrived so far.
\<close>

definition awaiting :: "env \<Rightarrow> (await_site \<Rightarrow> (string \<times> string option) list) \<Rightarrow> await_site
                          \<Rightarrow> world \<times> (exn + update_result) list
                          \<Rightarrow> world \<times> (exn + update_result) list" where
  "awaiting env sched site st =
     (case arrive env (sched site) (fst st) of (rs, w1) \<Rightarrow> (w1, snd st @ rs))"

definition execAsync_conc :: "env \<Rightarrow> (await_site \<Rightarrow> (string \<times> string option) list) \<Rightarrow> await_site
                                \<Rightarrow> string \<Rightarrow> string \<Rightarrow> world \<times> (exn + update_result) list
                                \<Rightarrow> (string + (string \<times> string)) \<times> world \<times> (exn + update_result) list" where
  "execAsync_conc env sched site cmd cwd st =
     (exec env (trace (fst st)) cmd cwd,
      awaiting env sched site ((fst st)\<lparr>trace := trace (fst st) @ [Exec cmd cwd]\<rparr>, snd st))"

definition validateMountPoint_conc :: "env \<Rightarrow> (await_site \<Rightarrow> (string \<times> string option) list) \<Rightarrow> string
                                         \<Rightarrow> world \<times> (exn + update_result) list
                                         \<Rightarrow> (exn + unit) \<times> world \<times> (exn + update_result) list" where
  "validateMountPoint_conc env sched mountPath st =
     (let resolved = path_resolve env mountPath
      in if resolved \<noteq> WEBSITE_MOUNT then (Inl (BadRequestException ''Invalid mount path''), st)
         else
           (let st1 = awaiting env sched AwaitAccessMount st
            in if \<not> fs_access env resolved
               then (Inl (InternalServerErrorException ''Website mount point is not accessible''), st1)
               else
                 (let st2 = awaiting env sched AwaitAccessGit st1;
                      gitDir = fs_access env (path_join [resolved, ''.git''])
                  in if \<not> gitDir
                     then (Inl (BadRequestException ''Website directory is not a git repository''), st2)
                     else (Inr (), st2))))"

definition getGitCommit_conc :: "env \<Rightarrow> (await_site \<Rightarrow> (string \<times> string option) list) \<Rightarrow> await_site
                                   \<Rightarrow> string \<Rightarrow> world \<times> (exn + update_result) list
                                   \<Rightarrow> string \<times> world \<times> (exn + update_result) list" where
  "getGitCommit_conc env sched site cwd st =
     (case execAsync_conc env sched site ''git rev-parse --short HEAD'' cwd st of
        (Inl _, st1) \<Rightarrow> (trim ''unknown'', st1)
      | (Inr (stdout, _), st1) \<Rightarrow> (trim stdout, st1))"

definition getGitBranch_conc :: "env \<Rightarrow> (await_site \<Rightarrow> (string \<times> string option) list) \<Rightarrow> await_site
                                   \<Rightarrow> string \<Rightarrow> world \<times> (exn + update_result) list
                                   \<Rightarrow> string \<times> world \<times> (exn + update_result) list" where
  "getGitBranch_conc env sched site cwd st =
     (case execAsync_conc env sched site ''git rev-parse --abbrev-ref HEAD'' cwd st of
        (Inl _, st1) \<Rightarrow> (trim ''unknown'', st1)
      | (Inr (stdout, _), st1) \<Rightarrow> (trim stdout, st1))"

definition audit_log_conc :: "env \<Rightarrow> (await_site \<Rightarrow> (string \<times> string option) list) \<Rightarrow> audit_log_input
                                \<Rightarrow> world \<times> (exn + update_result) list
                                \<Rightarrow> world \<times> (exn + update_result) list" where
  "audit_log_conc env sched input st = awaiting env sched AwaitAudit (audit_log input (fst st), snd st)"

definition pull_try_conc :: "env \<Rightarrow> (await_site \<Rightarrow> (string \<times> string option) list) \<Rightarrow> string
                               \<Rightarrow> string option \<Rightarrow> world \<times> (exn + update_result) list
                               \<Rightarrow> (exn + update_result) \<times> world \<times> (exn + update_result) list" where
  "pull_try_conc env sched performedBy ipAddr st =
     (case validateMountPoint_conc env sched WEBSITE_MOUNT st of
        (Inl e, st0) \<Rightarrow> (Inl e, st0)
      | (Inr _, st0) \<Rightarrow>
          (case getGitCommit_conc env sched AwaitRevParseBefore WEBSITE_MOUNT st0 of
             (beforeCommit, st1) \<Rightarrow>
               (case execAsync_conc env sched AwaitPull ''git pull --ff-only'' WEBSITE_MOUNT st1 of
                  (Inl m, st2) \<Rightarrow> (Inl (Error m), st2)
                | (Inr (stdout, stderr), st2) \<Rightarrow>
                    (let out = trim (join [CHR 0x0A] (filter (\<lambda>s. s \<noteq> []) [stdout, stderr]))
                     in case getGitCommit_conc env sched AwaitRevParseAfter WEBSITE_MOUNT st2 of
                          (afterCommit, st3) \<Rightarrow>
                            (case getGitBranch_conc env sched AwaitBranch WEBSITE_MOUNT st3 of
                               (br, st4) \<Rightarrow>
                                 (Inr \<lparr>success = True, output = out, branch = br,
                                       commit = afterCommit, timestamp = now env\<rparr>,
                                  audit_log_conc env sched
                                    ((audit_input ''WEBSITE_UPDATE'' ''WebsiteSource'')
                                       \<lparr>oldValue := Some [(''commit'', beforeCommit)],
                                        newValue := Some [(''commit'', afterCommit),
                                                          (''branch'', br),
                                                          (''output'', out)],
                                        performedById := Some performedBy,
                                        ipAddress := ipAddr\<rparr>) st4))))))"

definition pull_try_catch_conc :: "env \<Rightarrow> (await_site \<Rightarrow> (string \<times> string option) list) \<Rightarrow> string
                                     \<Rightarrow> string option \<Rightarrow> world \<times> (exn + update_result) list
                                     \<Rightarrow> (exn + update_result) \<times> world \<times> (exn + update_result) list" where
  "pull_try_catch_conc env sched performedBy ipAddr st =
     (case pull_try_conc env sched performedBy ipAddr st of
        (Inr r, st1) \<Rightarrow> (Inr r, st1)
      | (Inl err, st1) \<Rightarrow>
          (Inl (InternalServerErrorException (''Update failed: '' @ message err)),
           audit_log_conc env sched
             ((audit_input ''WEBSITE_UPDATE_FAILED'' ''WebsiteSource'')
                \<lparr>newValue := Some [(''error'', message err)],
                 performedById := Some performedBy,
                 ipAddress := ipAddr\<rparr>) st1))"

text \<open>
  The call under a schedule: its result, the world it leaves, and the results of the
  calls that arrived while it ran.
\<close>

definition pullWebsiteUpdate_conc :: "(await_site \<Rightarrow> (string \<times> string option) list) \<Rightarrow> env \<Rightarrow> string
                                        \<Rightarrow> string option \<Rightarrow> world
                                        \<Rightarrow> (exn + update_result) \<times> world \<times> (exn + update_result) list" where
  "pullWebsiteUpdate_conc sched env performedBy ipAddr w =
     (if isUpdating w
      then (Inl (BadRequestException ''An update is already in progress''), w, [])
      else
        (case pull_try_catch_conc env sched performedBy ipAddr (w\<lparr>isUpdating := True\<rparr>, []) of
           (r, w1, rs) \<Rightarrow> (r, w1\<lparr>isUpdating := False\<rparr>, rs)))"

text \<open>The places of waiting a call passes, given what the outside answers.\<close>

definition sites_passed :: "env \<Rightarrow> world \<Rightarrow> await_site list" where
  "sites_passed env w =
     (if path_resolve env WEBSITE_MOUNT \<noteq> WEBSITE_MOUNT then [AwaitAudit]
      else if \<not> fs_access env WEBSITE_MOUNT then [AwaitAccessMount, AwaitAudit]
      else if \<not> fs_access env (path_join [WEBSITE_MOUNT, ''.git''])
        then [AwaitAccessMount, AwaitAccessGit, AwaitAudit]
      else
        (case exec env (trace w @ [Exec ''git rev-parse --short HEAD'' WEBSITE_MOUNT])
                ''git pull --ff-only'' WEBSITE_MOUNT of
           Inl _ \<Rightarrow> [AwaitAccessMount, AwaitAccessGit, AwaitRevParseBefore, AwaitPull, AwaitAudit]
         | Inr _ \<Rightarrow> [AwaitAccessMount, AwaitAccessGit, AwaitRevParseBefore, AwaitPull,
                     AwaitRevParseAfter, AwaitBranch, AwaitAudit]))"

section \<open>Sample inputs\<close>

text \<open>A small concrete world, request and outside, used to run the operations.\<close>

definition sample_user :: user where
  "sample_user =
     \<lparr>user_id = ''u1'', email = ''owner@hotel.com'', password_hash = ''hash-pw'',
      user_role = MANAGER, first_name = ''Ada'', last_name = ''Owner'', is_active = True,
      last_login_at = None\<rparr>"

definition sample_session :: session_user where
  "sample_session =
     \<lparr>su_id = ''u1'', su_email = ''owner@hotel.com'', su_role = MANAGER,
      firstName = ''Ada'', lastName = ''Owner''\<rparr>"

definition sample_request :: request where
  "sample_request =
     \<lparr>req_session_id = ''s1'', req_ip = ''10.0.0.7'', req_user_agent = None, req_user = None\<rparr>"

definition sample_world :: world where
  "sample_world =
     \<lparr>users = [sample_user], sessions = [''s1'' \<mapsto> sample_session],
      session_store_err = None, audit_up = True, audit_rows = [], isUpdating = False,
      trace = []\<rparr>"

definition busy_world :: world where
  "busy_world = sample_world\<lparr>isUpdating := True\<rparr>"

text \<open>
  An outside where the directory is a repository, the pull moves \<open>HEAD\<close> from
  \<open>abc1234\<close> to \<open>def5678\<close> on \<open>main\<close>, and the working tree has one modified file.
\<close>

definition sample_exec :: "effect list \<Rightarrow> string \<Rightarrow> string \<Rightarrow> string + (string \<times> string)" where
  "sample_exec tr cmd cwd =
     (if cmd = ''git pull --ff-only'' then Inr (''Updating abc1234..def5678'' @ [CHR 0x0A], [])
      else if cmd = ''git rev-parse --short HEAD''
        then (if Exec ''git pull --ff-only'' cwd \<in> set tr
              then Inr (''def5678'' @ [CHR 0x0A], []) else Inr (''abc1234'' @ [CHR 0x0A], []))
      else if cmd = ''git rev-parse --abbrev-ref HEAD'' then Inr (''main'' @ [CHR 0x0A], [])
      else Inr ('' M page.tsx'' @ [CHR 0x0A], []))"

definition sample_verify :: "string \<Rightarrow> string \<Rightarrow> string + bool" where
  "sample_verify h p =
     (if h = PLACEHOLDER_HASH then Inl ''invalid hash'' else Inr (h = ''hash-'' @ p))"

definition same_path :: "string \<Rightarrow> string" where
  "same_path p = p"

definition every_path :: "string \<Rightarrow> bool" where
  "every_path p = True"

definition no_path :: "string \<Rightarrow> bool" where
  "no_path p = False"

definition only_mount :: "string \<Rightarrow> bool" where
  "only_mount p = (p = WEBSITE_MOUNT)"

definition no_mtime :: "string \<Rightarrow> nat option" where
  "no_mtime p = None"

definition sample_env :: env where
  "sample_env =
     \<lparr>argon2_verify = sample_verify, path_resolve = same_path, fs_access = every_path,
      fs_stat_mtime = no_mtime, now = 1700000000, exec = sample_exec\<rparr>"

text \<open>The mount point is not there.\<close>

definition env_missing_dir :: env where
  "env_missing_dir = sample_env\<lparr>fs_access := no_path\<rparr>"

text \<open>The mount point is there, without \<open>.git\<close>.\<close>

definition env_no_git :: env where
  "env_no_git = sample_env\<lparr>fs_access := only_mount\<rparr>"

text \<open>Login attempts: an unknown address, and a wrong password for the stored user.\<close>

definition dto_unknown :: login_dto where
  "dto_unknown = \<lparr>dto_email = ''nobody@hotel.com'', dto_password = ''pw''\<rparr>"

definition dto_wrong :: login_dto where
  "dto_wrong = \<lparr>dto_email = '' Owner@Hotel.com '', dto_password = ''guess''\<rparr>"

definition inactive_world :: world where
  "inactive_world = sample_world\<lparr>users := [sample_user\<lparr>is_active := False\<rparr>]\<rparr>"

text \<open>The first capture of the revision fails (its five seconds run out); the pull succeeds.\<close>

definition revparse_fails_exec :: "effect list \<Rightarrow> string \<Rightarrow> string \<Rightarrow> string + (string \<times> string)" where
  "revparse_fails_exec tr cmd cwd =
     (if cmd = ''git rev-parse --short HEAD'' \<and> Exec ''git pull --ff-only'' cwd \<notin> set tr
      then Inl ''Command failed: git rev-parse --short HEAD''
      else sample_exec tr cmd cwd)"

definition env_revparse_fails :: env where
  "env_revparse_fails = sample_env\<lparr>exec := revparse_fails_exec\<rparr>"

text \<open>The pull fails.\<close>

definition pull_fails_exec :: "effect list \<Rightarrow> string \<Rightarrow> string \<Rightarrow> string + (string \<times> string)" where
  "pull_fails_exec tr cmd cwd =
     (if cmd = ''git pull --ff-only''
      then Inl ''Command failed: git pull --ff-only''
      else sample_exec tr cmd cwd)"

definition env_pull_fails :: env where
  "env_pull_fails = sample_env\<lparr>exec := pull_fails_exec\<rparr>"

text \<open>\<open>git status\<close> fails.\<close>

definition status_fails_exec :: "effect list \<Rightarrow> string \<Rightarrow> string \<Rightarrow> string + (string \<times> string)" where
  "status_fails_exec tr cmd cwd =
     (if cmd = ''git status --porcelain''
      then Inl ''Command failed: git status --porcelain''
      else sample_exec tr cmd cwd)"

definition env_status_fails :: env where
  "env_status_fails = sample_env\<lparr>exec := status_fails_exec\<rparr>"

text \<open>Two calls arrive while the pull runs, one while the audit row is written.\<close>

definition sample_schedule :: "await_site \<Rightarrow> (string \<times> string option) list" where
  "sample_schedule site =
     (if site = AwaitPull then [(''u2'', None), (''u3'', Some ''10.0.0.9'')]
      else if site = AwaitAudit then [(''u4'', None)]
      else [])"

section \<open>Session re-validation\<close>

lemma find_deactivate:
  "find (\<lambda>x. user_id x = u) (map (\<lambda>x. if user_id x = u then x\<lparr>is_active := False\<rparr> else x) xs)
     = map_option (\<lambda>x. x\<lparr>is_active := False\<rparr>) (find (\<lambda>x. user_id x = u) xs)"
  by (induction xs) auto

text \<open>
  Claim C1. For a session whose payload names the user id \<open>u\<close>, \<open>getSessionUser\<close> fetches
  the user row by that id (the one database call it adds to the trace) and returns the
  row only if it exists and is active, \<open>null\<close> otherwise. Once the rows with id \<open>u\<close> are
  set inactive, the session entry still being in the store, the call returns \<open>null\<close>.
\<close>

theorem C1_getSessionUser_revalidates:
  assumes "sessions w (req_session_id req) = Some su"
  shows "fst (getSessionUser req w) =
           (if su_id su = [] then None
            else case find (\<lambda>x. user_id x = su_id su) (users w) of
                   None \<Rightarrow> None
                 | Some x \<Rightarrow> if is_active x then Some x else None)
       \<and> (su_id su \<noteq> [] \<longrightarrow>
            snd (getSessionUser req w) = w\<lparr>trace := trace w @ [DbUserFindById (su_id su)]\<rparr>)
       \<and> fst (getSessionUser req
                 (w\<lparr>users := map (\<lambda>x. if user_id x = su_id su then x\<lparr>is_active := False\<rparr> else x)
                                  (users w)\<rparr>)) = None"
  using assms
  by (auto simp: getSessionUser_def findUniqueById_def find_deactivate split: option.splits)

theorem C1_getSessionUser_revalidates_witness:
  "sessions sample_world (req_session_id sample_request) = Some sample_session
   \<and> su_id sample_session \<noteq> []
   \<and> fst (getSessionUser sample_request sample_world) = Some sample_user
   \<and> trace (snd (getSessionUser sample_request sample_world)) = [DbUserFindById ''u1'']
   \<and> sessions (sample_world\<lparr>users := [sample_user\<lparr>is_active := False\<rparr>]\<rparr>) ''s1'' = Some sample_session
   \<and> fst (getSessionUser sample_request
            (sample_world\<lparr>users := [sample_user\<lparr>is_active := False\<rparr>]\<rparr>)) = None"
  using C1_getSessionUser_revalidates [of sample_world sample_request sample_session]
  by (simp add: sample_world_def sample_request_def sample_session_def sample_user_def)

section \<open>The update trigger\<close>

lemma audit_log_trace: "trace (audit_log i w) = trace w @ [AuditLog i]"
  by (simp add: audit_log_def Let_def)

lemma audit_log_flag: "isUpdating (audit_log i w) = isUpdating w"
  by (simp add: audit_log_def Let_def)

lemma pull_try_invalid:
  "validateMountPoint env WEBSITE_MOUNT = Inl e \<Longrightarrow> pull_try env p ip w = (Inl e, w)"
  by (simp add: pull_try_def)

text \<open>
  Claim C3, as stated, fails: with the mount point missing, \<open>validateMountPoint\<close> raises an
  \<open>InternalServerErrorException\<close>, and \<open>pullWebsiteUpdate\<close> fails with an
  \<open>InternalServerErrorException\<close> too, not with a validation error.
\<close>

theorem C3_invalid_target_counterexample:
  "\<not> fs_access env_missing_dir WEBSITE_MOUNT
   \<and> validateMountPoint env_missing_dir WEBSITE_MOUNT =
       Inl (InternalServerErrorException ''Website mount point is not accessible'')
   \<and> fst (pullWebsiteUpdate env_missing_dir ''u1'' None sample_world) =
       Inl (InternalServerErrorException ''Update failed: Website mount point is not accessible'')"
  by (simp add: pullWebsiteUpdate_def pull_try_catch_def pull_try_def validateMountPoint_def
      env_missing_dir_def sample_env_def same_path_def no_path_def sample_world_def)

text \<open>
  Claim C3, amended. \<open>validateMountPoint\<close> rejects a path that does not resolve to the
  approved one, and an approved directory without \<open>.git\<close>, with a
  \<open>BadRequestException\<close>; it rejects an approved directory that is not accessible with an
  \<open>InternalServerErrorException\<close>. In each of the three cases \<open>pullWebsiteUpdate\<close> fails,
  runs no external process, and leaves the flag clear.
\<close>

theorem C3_invalid_target_amended:
  "(path_resolve env mp \<noteq> WEBSITE_MOUNT \<longrightarrow>
      validateMountPoint env mp = Inl (BadRequestException ''Invalid mount path''))
   \<and> (path_resolve env mp = WEBSITE_MOUNT \<and> \<not> fs_access env WEBSITE_MOUNT \<longrightarrow>
      validateMountPoint env mp =
        Inl (InternalServerErrorException ''Website mount point is not accessible''))
   \<and> (path_resolve env mp = WEBSITE_MOUNT \<and> fs_access env WEBSITE_MOUNT
        \<and> \<not> fs_access env (path_join [WEBSITE_MOUNT, ''.git'']) \<longrightarrow>
      validateMountPoint env mp =
        Inl (BadRequestException ''Website directory is not a git repository''))
   \<and> (path_resolve env WEBSITE_MOUNT \<noteq> WEBSITE_MOUNT \<or> \<not> fs_access env WEBSITE_MOUNT
        \<or> \<not> fs_access env (path_join [WEBSITE_MOUNT, ''.git'']) \<longrightarrow>
      (\<exists>e. fst (pullWebsiteUpdate env p ip w) = Inl e)
      \<and> filter is_exec (trace (snd (pullWebsiteUpdate env p ip w))) = filter is_exec (trace w)
      \<and> (\<not> isUpdating w \<longrightarrow> \<not> isUpdating (snd (pullWebsiteUpdate env p ip w))))"
proof -
  have v1: "path_resolve env mp \<noteq> WEBSITE_MOUNT \<Longrightarrow>
      validateMountPoint env mp = Inl (BadRequestException ''Invalid mount path'')"
    by (simp add: validateMountPoint_def)
  have v2: "path_resolve env mp = WEBSITE_MOUNT \<Longrightarrow> \<not> fs_access env WEBSITE_MOUNT \<Longrightarrow>
      validateMountPoint env mp =
        Inl (InternalServerErrorException ''Website mount point is not accessible'')"
    by (simp add: validateMountPoint_def)
  have v3: "path_resolve env mp = WEBSITE_MOUNT \<Longrightarrow> fs_access env WEBSITE_MOUNT \<Longrightarrow>
      \<not> fs_access env (path_join [WEBSITE_MOUNT, ''.git'']) \<Longrightarrow>
      validateMountPoint env mp =
        Inl (BadRequestException ''Website directory is not a git repository'')"
    by (simp add: validateMountPoint_def Let_def)
  have inv: "\<exists>e. validateMountPoint env WEBSITE_MOUNT = Inl e"
    if "path_resolve env WEBSITE_MOUNT \<noteq> WEBSITE_MOUNT \<or> \<not> fs_access env WEBSITE_MOUNT
        \<or> \<not> fs_access env (path_join [WEBSITE_MOUNT, ''.git''])"
    using that by (auto simp: validateMountPoint_def Let_def)
  have pull: "(\<exists>e. fst (pullWebsiteUpdate env p ip w) = Inl e)
      \<and> filter is_exec (trace (snd (pullWebsiteUpdate env p ip w))) = filter is_exec (trace w)
      \<and> (\<not> isUpdating w \<longrightarrow> \<not> isUpdating (snd (pullWebsiteUpdate env p ip w)))"
    if "validateMountPoint env WEBSITE_MOUNT = Inl e" for e
    using pull_try_invalid [OF that]
    by (simp add: pullWebsiteUpdate_def pull_try_catch_def audit_log_trace)
  show ?thesis using v1 v2 v3 inv pull by blast
qed

theorem C3_invalid_target_amended_witness:
  "path_resolve sample_env ''/etc'' \<noteq> WEBSITE_MOUNT
   \<and> validateMountPoint sample_env ''/etc'' = Inl (BadRequestException ''Invalid mount path'')
   \<and> path_resolve env_missing_dir WEBSITE_MOUNT = WEBSITE_MOUNT
   \<and> \<not> fs_access env_missing_dir WEBSITE_MOUNT
   \<and> validateMountPoint env_missing_dir WEBSITE_MOUNT =
       Inl (InternalServerErrorException ''Website mount point is not accessible'')
   \<and> fs_access env_no_git WEBSITE_MOUNT
   \<and> \<not> fs_access env_no_git (path_join [WEBSITE_MOUNT, ''.git''])
   \<and> validateMountPoint env_no_git WEBSITE_MOUNT =
       Inl (BadRequestException ''Website directory is not a git repository'')
   \<and> (\<exists>e. fst (pullWebsiteUpdate env_no_git ''u1'' None sample_world) = Inl e)
   \<and> filter is_exec (trace (snd (pullWebsiteUpdate env_no_git ''u1'' None sample_world))) = []
   \<and> \<not> isUpdating (snd (pullWebsiteUpdate env_no_git ''u1'' None sample_world))"
proof -
  have a: "path_resolve sample_env ''/etc'' \<noteq> WEBSITE_MOUNT"
    by (simp add: sample_env_def same_path_def WEBSITE_MOUNT_def)
  have b: "path_resolve env_missing_dir WEBSITE_MOUNT = WEBSITE_MOUNT"
    "\<not> fs_access env_missing_dir WEBSITE_MOUNT"
    by (simp_all add: env_missing_dir_def sample_env_def same_path_def no_path_def)
  have c: "path_resolve env_no_git WEBSITE_MOUNT = WEBSITE_MOUNT"
    "fs_access env_no_git WEBSITE_MOUNT"
    "\<not> fs_access env_no_git (path_join [WEBSITE_MOUNT, ''.git''])"
    by (simp_all add: env_no_git_def sample_env_def same_path_def only_mount_def path_join_def
        WEBSITE_MOUNT_def)
  have d: "filter is_exec (trace sample_world) = []" "\<not> isUpdating sample_world"
    by (simp_all add: sample_world_def)
  show ?thesis
    using a b c d
      C3_invalid_target_amended [of sample_env "''/etc''" "''u1''" None sample_world]
      C3_invalid_target_amended [of env_missing_dir WEBSITE_MOUNT "''u1''" None sample_world]
      C3_invalid_target_amended [of env_no_git WEBSITE_MOUNT "''u1''" None sample_world]
    by simp
qed

subsection \<open>Audit of an update\<close>

lemma audit_actions_append: "audit_actions (xs @ ys) = audit_actions xs @ audit_actions ys"
  by (induction xs rule: audit_actions.induct) simp_all

lemma trim_unknown: "trim ''unknown'' = ''unknown''"
  by (simp add: trim_def js_whitespace_def)

lemma getGitCommit_eq:
  "getGitCommit env cwd w =
     ((case exec env (trace w) ''git rev-parse --short HEAD'' cwd of
         Inl _ \<Rightarrow> ''unknown'' | Inr (stdout, _) \<Rightarrow> trim stdout),
      w\<lparr>trace := trace w @ [Exec ''git rev-parse --short HEAD'' cwd]\<rparr>)"
  by (simp add: getGitCommit_def execAsync_def trim_unknown split: sum.splits prod.splits)

lemma getGitBranch_eq:
  "getGitBranch env cwd w =
     ((case exec env (trace w) ''git rev-parse --abbrev-ref HEAD'' cwd of
         Inl _ \<Rightarrow> ''unknown'' | Inr (stdout, _) \<Rightarrow> trim stdout),
      w\<lparr>trace := trace w @ [Exec ''git rev-parse --abbrev-ref HEAD'' cwd]\<rparr>)"
  by (simp add: getGitBranch_def execAsync_def trim_unknown split: sum.splits prod.splits)

lemma pull_try_fails:
  assumes "validateMountPoint env WEBSITE_MOUNT = Inr ()"
    and "exec env (trace w @ [Exec ''git rev-parse --short HEAD'' WEBSITE_MOUNT])
           ''git pull --ff-only'' WEBSITE_MOUNT = Inl m"
  shows "pull_try env p ip w =
           (Inl (Error m),
            w\<lparr>trace := trace w @ [Exec ''git rev-parse --short HEAD'' WEBSITE_MOUNT,
                                   Exec ''git pull --ff-only'' WEBSITE_MOUNT]\<rparr>)"
  using assms by (simp add: pull_try_def getGitCommit_eq execAsync_def)

lemma pull_try_succeeds:
  assumes "validateMountPoint env WEBSITE_MOUNT = Inr ()"
    and "exec env (trace w @ [Exec ''git rev-parse --short HEAD'' WEBSITE_MOUNT])
           ''git pull --ff-only'' WEBSITE_MOUNT = Inr (so, se)"
  shows "fst (pull_try env p ip w) =
           Inr \<lparr>success = True,
                output = trim (join [CHR 0x0A] (filter (\<lambda>s. s \<noteq> []) [so, se])),
                branch = fst (getGitBranch env WEBSITE_MOUNT
                   (w\<lparr>trace := trace w @ [Exec ''git rev-parse --short HEAD'' WEBSITE_MOUNT,
                                          Exec ''git pull --ff-only'' WEBSITE_MOUNT,
                                          Exec ''git rev-parse --short HEAD'' WEBSITE_MOUNT]\<rparr>)),
                commit = fst (getGitCommit env WEBSITE_MOUNT
                   (w\<lparr>trace := trace w @ [Exec ''git rev-parse --short HEAD'' WEBSITE_MOUNT,
                                          Exec ''git pull --ff-only'' WEBSITE_MOUNT]\<rparr>)),
                timestamp = now env\<rparr>"
    and "trace (snd (pull_try env p ip w)) =
           trace w @ [Exec ''git rev-parse --short HEAD'' WEBSITE_MOUNT,
                      Exec ''git pull --ff-only'' WEBSITE_MOUNT,
                      Exec ''git rev-parse --short HEAD'' WEBSITE_MOUNT,
                      Exec ''git rev-parse --abbrev-ref HEAD'' WEBSITE_MOUNT,
                      AuditLog \<lparr>action = ''WEBSITE_UPDATE'', resource = ''WebsiteSource'',
                        resourceId = None,
                        oldValue = Some [(''commit'', fst (getGitCommit env WEBSITE_MOUNT w))],
                        newValue = Some
                          [(''commit'', fst (getGitCommit env WEBSITE_MOUNT
                              (w\<lparr>trace := trace w @ [Exec ''git rev-parse --short HEAD'' WEBSITE_MOUNT,
                                                     Exec ''git pull --ff-only'' WEBSITE_MOUNT]\<rparr>))),
                           (''branch'', fst (getGitBranch env WEBSITE_MOUNT
                              (w\<lparr>trace := trace w @ [Exec ''git rev-parse --short HEAD'' WEBSITE_MOUNT,
                                                     Exec ''git pull --ff-only'' WEBSITE_MOUNT,
                                                     Exec ''git rev-parse --short HEAD'' WEBSITE_MOUNT]\<rparr>))),
                           (''output'', trim (join [CHR 0x0A] (filter (\<lambda>s. s \<noteq> []) [so, se])))],
                        performedById = Some p, ipAddress = ip, userAgent = None\<rparr>]"
  using assms
  by (simp_all add: pull_try_def getGitCommit_eq getGitBranch_eq execAsync_def audit_log_def
      audit_input_def Let_def)

text \<open>
  Claim C8, as stated, fails for step 2: the first capture of the revision fails, the
  failure is swallowed, the pull runs, the call succeeds and the only audit event is
  \<open>WEBSITE_UPDATE\<close>.
\<close>

theorem C8_update_audit_counterexample:
  "\<not> isUpdating sample_world
   \<and> validateMountPoint env_revparse_fails WEBSITE_MOUNT = Inr ()
   \<and> exec env_revparse_fails (trace sample_world) ''git rev-parse --short HEAD'' WEBSITE_MOUNT =
       Inl ''Command failed: git rev-parse --short HEAD''
   \<and> fst (pullWebsiteUpdate env_revparse_fails ''u1'' None sample_world) =
       Inr \<lparr>success = True, output = ''Updating abc1234..def5678'', branch = ''main'',
            commit = ''def5678'', timestamp = 1700000000\<rparr>
   \<and> audit_actions (trace (snd (pullWebsiteUpdate env_revparse_fails ''u1'' None sample_world))) =
       [''WEBSITE_UPDATE'']"
  by (simp add: pullWebsiteUpdate_def pull_try_catch_def pull_try_def getGitCommit_def
      getGitBranch_def execAsync_def validateMountPoint_def audit_log_def audit_input_def
      WEBSITE_MOUNT_def path_join_def trim_def js_whitespace_def Let_def sample_env_def
      sample_exec_def sample_world_def same_path_def every_path_def env_revparse_fails_def
      revparse_fails_exec_def)

text \<open>
  Claim C8, amended. For a call that passes the flag and the validation: if the pull
  (step 3) fails, the trace ends with a \<open>WEBSITE_UPDATE_FAILED\<close> audit event carrying
  the error message and the call raises \<open>InternalServerErrorException\<close> with the message
  prefixed by "Update failed: "; if the pull succeeds, the call succeeds and the trace
  ends with a \<open>WEBSITE_UPDATE\<close> audit event holding the revision before, the revision
  and branch after, and the captured output, where a capture of the revision or branch
  (steps 2 and 4) that fails reads as \<open>unknown\<close> instead of failing the call.
\<close>

theorem C8_update_audit_amended:
  assumes "\<not> isUpdating w" and "validateMountPoint env WEBSITE_MOUNT = Inr ()"
  shows "(exec env (trace w @ [Exec ''git rev-parse --short HEAD'' WEBSITE_MOUNT])
            ''git pull --ff-only'' WEBSITE_MOUNT = Inl m \<longrightarrow>
          fst (pullWebsiteUpdate env p ip w) =
            Inl (InternalServerErrorException (''Update failed: '' @ m))
          \<and> trace (snd (pullWebsiteUpdate env p ip w)) =
              trace w @ [Exec ''git rev-parse --short HEAD'' WEBSITE_MOUNT,
                         Exec ''git pull --ff-only'' WEBSITE_MOUNT,
                         AuditLog \<lparr>action = ''WEBSITE_UPDATE_FAILED'', resource = ''WebsiteSource'',
                                   resourceId = None, oldValue = None,
                                   newValue = Some [(''error'', m)],
                                   performedById = Some p, ipAddress = ip, userAgent = None\<rparr>])
       \<and> (exec env (trace w @ [Exec ''git rev-parse --short HEAD'' WEBSITE_MOUNT])
            ''git pull --ff-only'' WEBSITE_MOUNT = Inr (so, se) \<longrightarrow>
          (\<exists>r. fst (pullWebsiteUpdate env p ip w) = Inr r
            \<and> success r
            \<and> output r = trim (join [CHR 0x0A] (filter (\<lambda>s. s \<noteq> []) [so, se]))
            \<and> commit r =
                (case exec env (trace w @ [Exec ''git rev-parse --short HEAD'' WEBSITE_MOUNT,
                                           Exec ''git pull --ff-only'' WEBSITE_MOUNT])
                        ''git rev-parse --short HEAD'' WEBSITE_MOUNT of
                   Inl _ \<Rightarrow> ''unknown'' | Inr (stdout, _) \<Rightarrow> trim stdout)
            \<and> branch r =
                (case exec env (trace w @ [Exec ''git rev-parse --short HEAD'' WEBSITE_MOUNT,
                                           Exec ''git pull --ff-only'' WEBSITE_MOUNT,
                                           Exec ''git rev-parse --short HEAD'' WEBSITE_MOUNT])
                        ''git rev-parse --abbrev-ref HEAD'' WEBSITE_MOUNT of
                   Inl _ \<Rightarrow> ''unknown'' | Inr (stdout, _) \<Rightarrow> trim stdout)
            \<and> trace (snd (pullWebsiteUpdate env p ip w)) =
                trace w @ [Exec ''git rev-parse --short HEAD'' WEBSITE_MOUNT,
                           Exec ''git pull --ff-only'' WEBSITE_MOUNT,
                           Exec ''git rev-parse --short HEAD'' WEBSITE_MOUNT,
                           Exec ''git rev-parse --abbrev-ref HEAD'' WEBSITE_MOUNT,
                           AuditLog \<lparr>action = ''WEBSITE_UPDATE'', resource = ''WebsiteSource'',
                             resourceId = None,
                             oldValue = Some
                               [(''commit'',
                                 case exec env (trace w) ''git rev-parse --short HEAD'' WEBSITE_MOUNT of
                                   Inl _ \<Rightarrow> ''unknown'' | Inr (stdout, _) \<Rightarrow> trim stdout)],
                             newValue = Some [(''commit'', commit r), (''branch'', branch r),
                                              (''output'', output r)],
                             performedById = Some p, ipAddress = ip, userAgent = None\<rparr>]))"
proof -
  let ?w = "w\<lparr>isUpdating := True\<rparr>"
  have failing: "fst (pullWebsiteUpdate env p ip w) =
            Inl (InternalServerErrorException (''Update failed: '' @ m))
          \<and> trace (snd (pullWebsiteUpdate env p ip w)) =
              trace w @ [Exec ''git rev-parse --short HEAD'' WEBSITE_MOUNT,
                         Exec ''git pull --ff-only'' WEBSITE_MOUNT,
                         AuditLog \<lparr>action = ''WEBSITE_UPDATE_FAILED'', resource = ''WebsiteSource'',
                                   resourceId = None, oldValue = None,
                                   newValue = Some [(''error'', m)],
                                   performedById = Some p, ipAddress = ip, userAgent = None\<rparr>]"
    if "exec env (trace w @ [Exec ''git rev-parse --short HEAD'' WEBSITE_MOUNT])
            ''git pull --ff-only'' WEBSITE_MOUNT = Inl m"
  proof -
    from that have "exec env (trace ?w @ [Exec ''git rev-parse --short HEAD'' WEBSITE_MOUNT])
            ''git pull --ff-only'' WEBSITE_MOUNT = Inl m" by simp
    from pull_try_fails [OF assms(2) this, of p ip] assms(1) show ?thesis
      by (simp add: pullWebsiteUpdate_def pull_try_catch_def audit_log_def audit_input_def Let_def)
  qed
  have succeeding: "\<exists>r. fst (pullWebsiteUpdate env p ip w) = Inr r
            \<and> success r
            \<and> output r = trim (join [CHR 0x0A] (filter (\<lambda>s. s \<noteq> []) [so, se]))
            \<and> commit r =
                (case exec env (trace w @ [Exec ''git rev-parse --short HEAD'' WEBSITE_MOUNT,
                                           Exec ''git pull --ff-only'' WEBSITE_MOUNT])
                        ''git rev-parse --short HEAD'' WEBSITE_MOUNT of
                   Inl _ \<Rightarrow> ''unknown'' | Inr (stdout, _) \<Rightarrow> trim stdout)
            \<and> branch r =
                (case exec env (trace w @ [Exec ''git rev-parse --short HEAD'' WEBSITE_MOUNT,
                                           Exec ''git pull --ff-only'' WEBSITE_MOUNT,
                                           Exec ''git rev-parse --short HEAD'' WEBSITE_MOUNT])
                        ''git rev-parse --abbrev-ref HEAD'' WEBSITE_MOUNT of
                   Inl _ \<Rightarrow> ''unknown'' | Inr (stdout, _) \<Rightarrow> trim stdout)
            \<and> trace (snd (pullWebsiteUpdate env p ip w)) =
                trace w @ [Exec ''git rev-parse --short HEAD'' WEBSITE_MOUNT,
                           Exec ''git pull --ff-only'' WEBSITE_MOUNT,
                           Exec ''git rev-parse --short HEAD'' WEBSITE_MOUNT,
                           Exec ''git rev-parse --abbrev-ref HEAD'' WEBSITE_MOUNT,
                           AuditLog \<lparr>action = ''WEBSITE_UPDATE'', resource = ''WebsiteSource'',
                             resourceId = None,
                             oldValue = Some
                               [(''commit'',
                                 case exec env (trace w) ''git rev-parse --short HEAD'' WEBSITE_MOUNT of
                                   Inl _ \<Rightarrow> ''unknown'' | Inr (stdout, _) \<Rightarrow> trim stdout)],
                             newValue = Some [(''commit'', commit r), (''branch'', branch r),
                                              (''output'', output r)],
                             performedById = Some p, ipAddress = ip, userAgent = None\<rparr>]"
    if "exec env (trace w @ [Exec ''git rev-parse --short HEAD'' WEBSITE_MOUNT])
            ''git pull --ff-only'' WEBSITE_MOUNT = Inr (so, se)"
  proof -
    from that have "exec env (trace ?w @ [Exec ''git rev-parse --short HEAD'' WEBSITE_MOUNT])
            ''git pull --ff-only'' WEBSITE_MOUNT = Inr (so, se)" by simp
    note ok = pull_try_succeeds [OF assms(2) this, of p ip]
    obtain r w1 where rw: "pull_try env p ip ?w = (Inr r, w1)"
      using ok(1) by (cases "pull_try env p ip ?w") auto
    from ok rw assms(1) show ?thesis
      by (simp add: pullWebsiteUpdate_def pull_try_catch_def getGitCommit_eq getGitBranch_eq)
  qed
  show ?thesis using failing succeeding by blast
qed

theorem C8_update_audit_amended_witness:
  "\<not> isUpdating sample_world
   \<and> validateMountPoint env_pull_fails WEBSITE_MOUNT = Inr ()
   \<and> exec env_pull_fails (trace sample_world @ [Exec ''git rev-parse --short HEAD'' WEBSITE_MOUNT])
        ''git pull --ff-only'' WEBSITE_MOUNT = Inl ''Command failed: git pull --ff-only''
   \<and> fst (pullWebsiteUpdate env_pull_fails ''u1'' None sample_world) =
       Inl (InternalServerErrorException ''Update failed: Command failed: git pull --ff-only'')
   \<and> audit_actions (trace (snd (pullWebsiteUpdate env_pull_fails ''u1'' None sample_world))) =
       [''WEBSITE_UPDATE_FAILED'']
   \<and> validateMountPoint sample_env WEBSITE_MOUNT = Inr ()
   \<and> exec sample_env (trace sample_world @ [Exec ''git rev-parse --short HEAD'' WEBSITE_MOUNT])
        ''git pull --ff-only'' WEBSITE_MOUNT = Inr (''Updating abc1234..def5678'' @ [CHR 0x0A], [])
   \<and> (\<exists>r. fst (pullWebsiteUpdate sample_env ''u1'' None sample_world) = Inr r
         \<and> success r \<and> output r = ''Updating abc1234..def5678'' \<and> commit r = ''def5678''
         \<and> branch r = ''main'')
   \<and> audit_actions (trace (snd (pullWebsiteUpdate sample_env ''u1'' None sample_world))) =
       [''WEBSITE_UPDATE'']"
proof -
  have i: "\<not> isUpdating sample_world" "trace sample_world = []"
    by (simp_all add: sample_world_def)
  have v: "validateMountPoint env_pull_fails WEBSITE_MOUNT = Inr ()"
    "validateMountPoint sample_env WEBSITE_MOUNT = Inr ()"
    by (simp_all add: validateMountPoint_def env_pull_fails_def sample_env_def same_path_def
        every_path_def)
  have f: "exec env_pull_fails (trace sample_world @ [Exec ''git rev-parse --short HEAD'' WEBSITE_MOUNT])
        ''git pull --ff-only'' WEBSITE_MOUNT = Inl ''Command failed: git pull --ff-only''"
    by (simp add: env_pull_fails_def sample_env_def pull_fails_exec_def)
  have s: "exec sample_env (trace sample_world @ [Exec ''git rev-parse --short HEAD'' WEBSITE_MOUNT])
        ''git pull --ff-only'' WEBSITE_MOUNT = Inr (''Updating abc1234..def5678'' @ [CHR 0x0A], [])"
    by (simp add: sample_env_def sample_exec_def)
  have e: "exec sample_env [Exec ''git rev-parse --short HEAD'' WEBSITE_MOUNT,
                            Exec ''git pull --ff-only'' WEBSITE_MOUNT]
             ''git rev-parse --short HEAD'' WEBSITE_MOUNT = Inr (''def5678'' @ [CHR 0x0A], [])"
    "exec sample_env [Exec ''git rev-parse --short HEAD'' WEBSITE_MOUNT,
                      Exec ''git pull --ff-only'' WEBSITE_MOUNT,
                      Exec ''git rev-parse --short HEAD'' WEBSITE_MOUNT]
             ''git rev-parse --abbrev-ref HEAD'' WEBSITE_MOUNT = Inr (''main'' @ [CHR 0x0A], [])"
    by (simp_all add: sample_env_def sample_exec_def)
  have t: "trim (''def5678'' @ [CHR 0x0A]) = ''def5678''" "trim (''main'' @ [CHR 0x0A]) = ''main''"
    "trim (join [CHR 0x0A] (filter (\<lambda>s. s \<noteq> []) [''Updating abc1234..def5678'' @ [CHR 0x0A], []]))
       = ''Updating abc1234..def5678''"
    by (simp_all add: trim_def js_whitespace_def)
  from C8_update_audit_amended [OF i(1) v(1), where m = "''Command failed: git pull --ff-only''"
      and p = "''u1''" and ip = None] f i(2)
  have A: "fst (pullWebsiteUpdate env_pull_fails ''u1'' None sample_world) =
       Inl (InternalServerErrorException ''Update failed: Command failed: git pull --ff-only'')
   \<and> audit_actions (trace (snd (pullWebsiteUpdate env_pull_fails ''u1'' None sample_world))) =
       [''WEBSITE_UPDATE_FAILED'']"
    by simp
  from C8_update_audit_amended [OF i(1) v(2), where so = "''Updating abc1234..def5678'' @ [CHR 0x0A]"
      and se = "[]" and p = "''u1''" and ip = None] s
  obtain r where r: "fst (pullWebsiteUpdate sample_env ''u1'' None sample_world) = Inr r"
    "success r" "output r = trim (join [CHR 0x0A] (filter (\<lambda>s. s \<noteq> []) [''Updating abc1234..def5678'' @ [CHR 0x0A], []]))"
    "commit r = ''def5678''" "branch r = ''main''"
    "audit_actions (trace (snd (pullWebsiteUpdate sample_env ''u1'' None sample_world))) = [''WEBSITE_UPDATE'']"
    using i(2) e t(1,2) by auto
  from r t(3) have B: "\<exists>r. fst (pullWebsiteUpdate sample_env ''u1'' None sample_world) = Inr r
         \<and> success r \<and> output r = ''Updating abc1234..def5678'' \<and> commit r = ''def5678''
         \<and> branch r = ''main''"
    by auto
  show ?thesis using i(1) v f s A B r(6) by blast
qed

subsection \<open>Single flight\<close>

lemma arrive_busy:
  "isUpdating w \<Longrightarrow>
     arrive env cs w =
       (map (\<lambda>c. Inl (BadRequestException ''An update is already in progress'')) cs, w)"
  by (induction cs) (simp_all add: pullWebsiteUpdate_def)

lemma awaiting_busy:
  "isUpdating (fst st) \<Longrightarrow>
     awaiting env sched site st =
       (fst st, snd st @ map (\<lambda>c. Inl (BadRequestException ''An update is already in progress''))
                            (sched site))"
  by (simp add: awaiting_def arrive_busy)

lemma execAsync_conc_busy:
  "isUpdating (fst st) \<Longrightarrow>
     execAsync_conc env sched site cmd cwd st =
       (exec env (trace (fst st)) cmd cwd,
        (fst st)\<lparr>trace := trace (fst st) @ [Exec cmd cwd]\<rparr>,
        snd st @ map (\<lambda>c. Inl (BadRequestException ''An update is already in progress''))
                    (sched site))"
  by (simp add: execAsync_conc_def awaiting_busy)

lemma getGitCommit_conc_busy:
  "isUpdating (fst st) \<Longrightarrow>
     getGitCommit_conc env sched site cwd st =
       (fst (getGitCommit env cwd (fst st)), snd (getGitCommit env cwd (fst st)),
        snd st @ map (\<lambda>c. Inl (BadRequestException ''An update is already in progress''))
                    (sched site))"
  by (simp add: getGitCommit_conc_def getGitCommit_def execAsync_conc_busy execAsync_def
      split: sum.splits prod.splits)

lemma getGitBranch_conc_busy:
  "isUpdating (fst st) \<Longrightarrow>
     getGitBranch_conc env sched site cwd st =
       (fst (getGitBranch env cwd (fst st)), snd (getGitBranch env cwd (fst st)),
        snd st @ map (\<lambda>c. Inl (BadRequestException ''An update is already in progress''))
                    (sched site))"
  by (simp add: getGitBranch_conc_def getGitBranch_def execAsync_conc_busy execAsync_def
      split: sum.splits prod.splits)

lemma audit_log_conc_busy:
  "isUpdating (fst st) \<Longrightarrow>
     audit_log_conc env sched i st =
       (audit_log i (fst st),
        snd st @ map (\<lambda>c. Inl (BadRequestException ''An update is already in progress''))
                    (sched AwaitAudit))"
  by (simp add: audit_log_conc_def awaiting_busy audit_log_flag)

lemma validateMountPoint_conc_busy:
  "isUpdating (fst st) \<Longrightarrow>
     validateMountPoint_conc env sched WEBSITE_MOUNT st =
       (validateMountPoint env WEBSITE_MOUNT, fst st,
        snd st @ map (\<lambda>c. Inl (BadRequestException ''An update is already in progress''))
          (concat (map sched
             (if path_resolve env WEBSITE_MOUNT \<noteq> WEBSITE_MOUNT then []
              else if \<not> fs_access env WEBSITE_MOUNT then [AwaitAccessMount]
              else [AwaitAccessMount, AwaitAccessGit]))))"
  by (simp add: validateMountPoint_conc_def validateMountPoint_def awaiting_busy Let_def)

lemma pull_try_catch_conc_busy:
  assumes "isUpdating w"
  shows "pull_try_catch_conc env sched p ip (w, []) =
           (fst (pull_try_catch env p ip w), snd (pull_try_catch env p ip w),
            map (\<lambda>c. Inl (BadRequestException ''An update is already in progress''))
              (concat (map sched (sites_passed env w))))"
proof (cases "validateMountPoint env WEBSITE_MOUNT")
  case (Inl e)
  then show ?thesis
    using assms
    by (simp add: pull_try_catch_conc_def pull_try_catch_def pull_try_conc_def pull_try_def
        validateMountPoint_conc_busy audit_log_conc_busy sites_passed_def validateMountPoint_def
        Let_def split: if_splits)
next
  case (Inr u)
  then have ok: "path_resolve env WEBSITE_MOUNT = WEBSITE_MOUNT" "fs_access env WEBSITE_MOUNT"
    "fs_access env (path_join [WEBSITE_MOUNT, ''.git''])"
    by (auto simp: validateMountPoint_def Let_def split: if_splits)
  show ?thesis
  proof (cases "exec env (trace w @ [Exec ''git rev-parse --short HEAD'' WEBSITE_MOUNT])
                  ''git pull --ff-only'' WEBSITE_MOUNT")
    case (Inl m)
    then show ?thesis
      using assms Inr ok
      by (simp add: pull_try_catch_conc_def pull_try_catch_def pull_try_conc_def pull_try_def
          validateMountPoint_conc_busy getGitCommit_conc_busy
          getGitCommit_eq execAsync_conc_busy execAsync_def audit_log_conc_busy
          audit_log_flag sites_passed_def)
  next
    case (Inr so)
    then show ?thesis
      using assms \<open>validateMountPoint env WEBSITE_MOUNT = Inr u\<close> ok
      by (simp add: pull_try_catch_conc_def pull_try_catch_def pull_try_conc_def pull_try_def
          validateMountPoint_conc_busy getGitCommit_conc_busy getGitBranch_conc_busy
          getGitCommit_eq getGitBranch_eq execAsync_conc_busy
          execAsync_def audit_log_conc_busy audit_log_flag sites_passed_def Let_def
          split: prod.splits)
  qed
qed

lemma pull_conc_idle:
  assumes "\<not> isUpdating w"
  shows "pullWebsiteUpdate_conc sched env p ip w =
           (fst (pullWebsiteUpdate env p ip w), snd (pullWebsiteUpdate env p ip w),
            map (\<lambda>c. Inl (BadRequestException ''An update is already in progress''))
              (concat (map sched (sites_passed env w))))"
proof -
  have "pull_try_catch_conc env sched p ip (w\<lparr>isUpdating := True\<rparr>, []) =
           (fst (pull_try_catch env p ip (w\<lparr>isUpdating := True\<rparr>)),
            snd (pull_try_catch env p ip (w\<lparr>isUpdating := True\<rparr>)),
            map (\<lambda>c. Inl (BadRequestException ''An update is already in progress''))
              (concat (map sched (sites_passed env (w\<lparr>isUpdating := True\<rparr>)))))"
    by (rule pull_try_catch_conc_busy) simp
  moreover have "sites_passed env (w\<lparr>isUpdating := True\<rparr>) = sites_passed env w"
    by (simp add: sites_passed_def)
  ultimately show ?thesis
    using assms
    by (simp add: pullWebsiteUpdate_conc_def pullWebsiteUpdate_def split: prod.splits)
qed

lemma sites_passed_pull:
  "validateMountPoint env WEBSITE_MOUNT = Inr () \<Longrightarrow> AwaitPull \<in> set (sites_passed env w)"
  by (auto simp: validateMountPoint_def sites_passed_def Let_def split: if_splits sum.splits)

text \<open>
  Claim C2. While the flag is set, \<open>pullWebsiteUpdate\<close> fails at once with the
  "already in progress" \<open>BadRequestException\<close> and leaves the world as it is, so no
  process is run. A call that finds the flag clear takes it: under every schedule, each
  call that arrives at any place where the first call waits (during the validation, each
  command, the audit write) gets that rejection, and the result and the world of the
  first call, its trace included, are those of the call running alone, so only the first
  call runs processes. Whatever the outside answers (success, failed validation, failed
  or timed-out pull) the flag is clear when the first call returns, and the next call
  enters the \<open>try\<close> block again.
\<close>

theorem C2_single_flight:
  "(isUpdating w \<longrightarrow>
      pullWebsiteUpdate env p ip w =
        (Inl (BadRequestException ''An update is already in progress''), w)
      \<and> pullWebsiteUpdate_conc sched env p ip w =
        (Inl (BadRequestException ''An update is already in progress''), w, []))
   \<and> (\<not> isUpdating w \<longrightarrow>
        snd (snd (pullWebsiteUpdate_conc sched env p ip w)) =
          map (\<lambda>c. Inl (BadRequestException ''An update is already in progress''))
            (concat (map sched (sites_passed env w)))
        \<and> (fst (pullWebsiteUpdate_conc sched env p ip w),
            fst (snd (pullWebsiteUpdate_conc sched env p ip w))) = pullWebsiteUpdate env p ip w
        \<and> (validateMountPoint env WEBSITE_MOUNT = Inr () \<longrightarrow>
             AwaitPull \<in> set (sites_passed env w))
        \<and> \<not> isUpdating (fst (snd (pullWebsiteUpdate_conc sched env p ip w)))
        \<and> \<not> isUpdating (snd (pullWebsiteUpdate env p ip w))
        \<and> pullWebsiteUpdate env2 p2 ip2 (snd (pullWebsiteUpdate env p ip w)) =
            (case pull_try_catch env2 p2 ip2
                    ((snd (pullWebsiteUpdate env p ip w))\<lparr>isUpdating := True\<rparr>) of
               (r, w1) \<Rightarrow> (r, w1\<lparr>isUpdating := False\<rparr>)))"
proof -
  have busy: "pullWebsiteUpdate env p ip w =
      (Inl (BadRequestException ''An update is already in progress''), w)
      \<and> pullWebsiteUpdate_conc sched env p ip w =
        (Inl (BadRequestException ''An update is already in progress''), w, [])"
    if "isUpdating w"
    using that by (simp add: pullWebsiteUpdate_def pullWebsiteUpdate_conc_def)
  have cleared: "\<not> isUpdating (snd (pullWebsiteUpdate env p ip w))" if "\<not> isUpdating w"
    using that by (simp add: pullWebsiteUpdate_def split: prod.splits)
  have again: "pullWebsiteUpdate env2 p2 ip2 w' =
            (case pull_try_catch env2 p2 ip2 (w'\<lparr>isUpdating := True\<rparr>) of
               (r, w1) \<Rightarrow> (r, w1\<lparr>isUpdating := False\<rparr>))" if "\<not> isUpdating w'" for w'
    using that by (simp add: pullWebsiteUpdate_def)
  have conc: "snd (snd (pullWebsiteUpdate_conc sched env p ip w)) =
          map (\<lambda>c. Inl (BadRequestException ''An update is already in progress''))
            (concat (map sched (sites_passed env w)))
        \<and> (fst (pullWebsiteUpdate_conc sched env p ip w),
            fst (snd (pullWebsiteUpdate_conc sched env p ip w))) = pullWebsiteUpdate env p ip w
        \<and> \<not> isUpdating (fst (snd (pullWebsiteUpdate_conc sched env p ip w)))"
    if "\<not> isUpdating w"
    using pull_conc_idle [OF that, of sched env p ip] cleared [OF that] by simp
  show ?thesis
    using busy cleared again conc sites_passed_pull [of env w] by blast
qed

theorem C2_single_flight_witness:
  "isUpdating busy_world
   \<and> pullWebsiteUpdate sample_env ''u1'' None busy_world =
       (Inl (BadRequestException ''An update is already in progress''), busy_world)
   \<and> \<not> isUpdating sample_world
   \<and> validateMountPoint sample_env WEBSITE_MOUNT = Inr ()
   \<and> snd (snd (pullWebsiteUpdate_conc sample_schedule sample_env ''u1'' None sample_world)) =
       [Inl (BadRequestException ''An update is already in progress''),
        Inl (BadRequestException ''An update is already in progress''),
        Inl (BadRequestException ''An update is already in progress'')]
   \<and> \<not> isUpdating (fst (snd (pullWebsiteUpdate_conc sample_schedule sample_env ''u1'' None
                                 sample_world)))
   \<and> snd (snd (pullWebsiteUpdate_conc sample_schedule env_pull_fails ''u1'' None sample_world)) =
       [Inl (BadRequestException ''An update is already in progress''),
        Inl (BadRequestException ''An update is already in progress''),
        Inl (BadRequestException ''An update is already in progress'')]
   \<and> \<not> isUpdating (fst (snd (pullWebsiteUpdate_conc sample_schedule env_pull_fails ''u1'' None
                                 sample_world)))
   \<and> snd (snd (pullWebsiteUpdate_conc sample_schedule env_missing_dir ''u1'' None sample_world)) =
       [Inl (BadRequestException ''An update is already in progress'')]
   \<and> \<not> isUpdating (fst (snd (pullWebsiteUpdate_conc sample_schedule env_missing_dir ''u1'' None
                                 sample_world)))"
proof -
  have b: "isUpdating busy_world" by (simp add: busy_world_def)
  have i: "\<not> isUpdating sample_world" by (simp add: sample_world_def)
  have v: "validateMountPoint sample_env WEBSITE_MOUNT = Inr ()"
    by (simp add: validateMountPoint_def sample_env_def same_path_def every_path_def)
  have s: "concat (map sample_schedule (sites_passed sample_env sample_world)) =
             [(''u2'', None), (''u3'', Some ''10.0.0.9''), (''u4'', None)]"
    "concat (map sample_schedule (sites_passed env_pull_fails sample_world)) =
             [(''u2'', None), (''u3'', Some ''10.0.0.9''), (''u4'', None)]"
    "concat (map sample_schedule (sites_passed env_missing_dir sample_world)) = [(''u4'', None)]"
    by (simp_all add: sites_passed_def sample_schedule_def sample_env_def env_pull_fails_def
        env_missing_dir_def same_path_def every_path_def no_path_def sample_exec_def
        pull_fails_exec_def)
  show ?thesis
    using b i v s
      C2_single_flight [of busy_world sample_env "''u1''" None sample_schedule sample_env "''u1''" None]
      C2_single_flight [of sample_world sample_env "''u1''" None sample_schedule sample_env "''u1''" None]
      C2_single_flight [of sample_world env_pull_fails "''u1''" None sample_schedule sample_env "''u1''" None]
      C2_single_flight [of sample_world env_missing_dir "''u1''" None sample_schedule sample_env "''u1''" None]
    by simp
qed

subsection \<open>Status\<close>

text \<open>
  Claim C10. In a call of \<open>getWebsiteStatus\<close> that passes the validation, a failing
  \<open>git status --porcelain\<close> does not make the call fail: the output reads as empty and
  the result has \<open>isClean = true\<close>. When the command succeeds, \<open>isClean\<close> tells whether
  its trimmed output is empty.
\<close>

theorem C10_status_failure_reads_clean:
  assumes "validateMountPoint env WEBSITE_MOUNT = Inr ()"
  shows "(exec env (trace w @ [Exec ''git rev-parse --abbrev-ref HEAD'' WEBSITE_MOUNT,
                              Exec ''git rev-parse --short HEAD'' WEBSITE_MOUNT])
            ''git status --porcelain'' WEBSITE_MOUNT = Inl m \<longrightarrow>
          (\<exists>r. fst (getWebsiteStatus env w) = Inr r \<and> isClean r))
       \<and> (exec env (trace w @ [Exec ''git rev-parse --abbrev-ref HEAD'' WEBSITE_MOUNT,
                                Exec ''git rev-parse --short HEAD'' WEBSITE_MOUNT])
            ''git status --porcelain'' WEBSITE_MOUNT = Inr (so, se) \<longrightarrow>
          (\<exists>r. fst (getWebsiteStatus env w) = Inr r \<and> (isClean r \<longleftrightarrow> trim so = [])))"
  using assms
  by (simp add: getWebsiteStatus_def getGitBranch_eq getGitCommit_eq execAsync_def Let_def)

theorem C10_status_failure_reads_clean_witness:
  "validateMountPoint env_status_fails WEBSITE_MOUNT = Inr ()
   \<and> exec env_status_fails
        (trace sample_world @ [Exec ''git rev-parse --abbrev-ref HEAD'' WEBSITE_MOUNT,
                               Exec ''git rev-parse --short HEAD'' WEBSITE_MOUNT])
        ''git status --porcelain'' WEBSITE_MOUNT = Inl ''Command failed: git status --porcelain''
   \<and> (\<exists>r. fst (getWebsiteStatus env_status_fails sample_world) = Inr r \<and> isClean r)
   \<and> validateMountPoint sample_env WEBSITE_MOUNT = Inr ()
   \<and> exec sample_env
        (trace sample_world @ [Exec ''git rev-parse --abbrev-ref HEAD'' WEBSITE_MOUNT,
                               Exec ''git rev-parse --short HEAD'' WEBSITE_MOUNT])
        ''git status --porcelain'' WEBSITE_MOUNT = Inr ('' M page.tsx'' @ [CHR 0x0A], [])
   \<and> (\<exists>r. fst (getWebsiteStatus sample_env sample_world) = Inr r \<and> \<not> isClean r)"
proof -
  have v: "validateMountPoint env_status_fails WEBSITE_MOUNT = Inr ()"
    "validateMountPoint sample_env WEBSITE_MOUNT = Inr ()"
    by (simp_all add: validateMountPoint_def env_status_fails_def sample_env_def same_path_def
        every_path_def)
  have f: "exec env_status_fails
        (trace sample_world @ [Exec ''git rev-parse --abbrev-ref HEAD'' WEBSITE_MOUNT,
                               Exec ''git rev-parse --short HEAD'' WEBSITE_MOUNT])
        ''git status --porcelain'' WEBSITE_MOUNT = Inl ''Command failed: git status --porcelain''"
    by (simp add: env_status_fails_def sample_env_def status_fails_exec_def)
  have s: "exec sample_env
        (trace sample_world @ [Exec ''git rev-parse --abbrev-ref HEAD'' WEBSITE_MOUNT,
                               Exec ''git rev-parse --short HEAD'' WEBSITE_MOUNT])
        ''git status --porcelain'' WEBSITE_MOUNT = Inr ('' M page.tsx'' @ [CHR 0x0A], [])"
    by (simp add: sample_env_def sample_exec_def)
  have t: "trim ('' M page.tsx'' @ [CHR 0x0A]) \<noteq> []"
    by (simp add: trim_def js_whitespace_def)
  show ?thesis
    using v f s t
      C10_status_failure_reads_clean [OF v(1), where w = sample_world
        and m = "''Command failed: git status --porcelain''"]
      C10_status_failure_reads_clean [OF v(2), where w = sample_world
        and so = "'' M page.tsx'' @ [CHR 0x0A]" and se = "[]"]
    by simp
qed

section \<open>Login\<close>

lemma login_absent:
  assumes "find (\<lambda>u. email u = trim (toLowerCase (dto_email dto))) (users w) = None"
  shows "login env dto req w =
           (Inl (UnauthorizedException ''Invalid credentials''),
            w\<lparr>trace := trace w @ [DbUserFindByEmail (trim (toLowerCase (dto_email dto))),
                                   Argon2Verify PLACEHOLDER_HASH (dto_password dto)]\<rparr>)"
  using assms by (simp add: login_def findUniqueByEmail_def verify_def)

lemma login_inactive:
  assumes "find (\<lambda>u. email u = trim (toLowerCase (dto_email dto))) (users w) = Some u"
    and "\<not> is_active u"
  shows "login env dto req w =
           (Inl (ForbiddenException ''Account has been deactivated''),
            w\<lparr>trace := trace w @ [DbUserFindByEmail (trim (toLowerCase (dto_email dto)))]\<rparr>)"
  using assms by (simp add: login_def findUniqueByEmail_def)

lemma login_wrong_password:
  assumes "find (\<lambda>u. email u = trim (toLowerCase (dto_email dto))) (users w) = Some u"
    and "is_active u"
    and "argon2_verify env (password_hash u) (dto_password dto) = Inr False"
  shows "fst (login env dto req w) = Inl (UnauthorizedException ''Invalid credentials'')"
    and "trace (snd (login env dto req w)) =
           trace w @ [DbUserFindByEmail (trim (toLowerCase (dto_email dto))),
                      Argon2Verify (password_hash u) (dto_password dto),
                      AuditLog \<lparr>action = ''USER_LOGIN_FAILED'', resource = ''User'',
                                resourceId = Some (user_id u), oldValue = None, newValue = None,
                                performedById = None, ipAddress = Some (req_ip req),
                                userAgent = req_user_agent req\<rparr>]"
  using assms
  by (simp_all add: login_def findUniqueByEmail_def verify_def audit_log_def audit_input_def Let_def)

text \<open>
  Claim C4. When the normalised address matches no user, \<open>login\<close> makes exactly one hash
  verification, against the fixed placeholder hash, and fails with the "Invalid
  credentials" \<open>UnauthorizedException\<close>. For an active user with a wrong password it
  makes exactly one verification too, against the stored hash, and fails with the same
  exception.
\<close>

theorem C4_absent_user_one_verification:
  "(find (\<lambda>u. email u = trim (toLowerCase (dto_email dto))) (users w) = None \<longrightarrow>
      fst (login env dto req w) = Inl (UnauthorizedException ''Invalid credentials'')
      \<and> filter is_verify (trace (snd (login env dto req w))) =
          filter is_verify (trace w) @ [Argon2Verify PLACEHOLDER_HASH (dto_password dto)])
   \<and> (find (\<lambda>u. email u = trim (toLowerCase (dto_email dto))) (users w) = Some u
        \<and> is_active u
        \<and> argon2_verify env (password_hash u) (dto_password dto) = Inr False \<longrightarrow>
      fst (login env dto req w) = Inl (UnauthorizedException ''Invalid credentials'')
      \<and> filter is_verify (trace (snd (login env dto req w))) =
          filter is_verify (trace w) @ [Argon2Verify (password_hash u) (dto_password dto)])"
  using login_absent [of dto w env req] login_wrong_password [of dto w u env req]
  by simp

theorem C4_absent_user_one_verification_witness:
  "find (\<lambda>u. email u = trim (toLowerCase (dto_email dto_unknown))) (users sample_world) = None
   \<and> fst (login sample_env dto_unknown sample_request sample_world) = Inl (UnauthorizedException ''Invalid credentials'')
   \<and> filter is_verify (trace (snd (login sample_env dto_unknown sample_request sample_world))) = [Argon2Verify PLACEHOLDER_HASH ''pw'']
   \<and> find (\<lambda>u. email u = trim (toLowerCase (dto_email dto_wrong))) (users sample_world) = Some sample_user
   \<and> is_active sample_user
   \<and> argon2_verify sample_env (password_hash sample_user) (dto_password dto_wrong) = Inr False
   \<and> fst (login sample_env dto_wrong sample_request sample_world) = Inl (UnauthorizedException ''Invalid credentials'')
   \<and> filter is_verify (trace (snd (login sample_env dto_wrong sample_request sample_world))) = [Argon2Verify ''hash-pw'' ''guess'']"
proof -
  have a: "find (\<lambda>u. email u = trim (toLowerCase (dto_email dto_unknown))) (users sample_world) = None"
    by (simp add: dto_unknown_def sample_world_def sample_user_def trim_def toLowerCase_def
        lower_char_def js_whitespace_def char_of_def bit_0)
  have b: "find (\<lambda>u. email u = trim (toLowerCase (dto_email dto_wrong))) (users sample_world) = Some sample_user"
    by (simp add: dto_wrong_def sample_world_def sample_user_def trim_def toLowerCase_def
        lower_char_def js_whitespace_def char_of_def bit_0)
  have c: "is_active sample_user"
    "argon2_verify sample_env (password_hash sample_user) (dto_password dto_wrong) = Inr False"
    "password_hash sample_user = ''hash-pw''" "dto_password dto_wrong = ''guess''"
    "dto_password dto_unknown = ''pw''" "trace sample_world = []"
    by (simp_all add: sample_user_def sample_env_def sample_verify_def dto_wrong_def
        dto_unknown_def PLACEHOLDER_HASH_def sample_world_def)
  show ?thesis
    using a b c
      C4_absent_user_one_verification [of dto_unknown sample_world sample_env sample_request sample_user]
      C4_absent_user_one_verification [of dto_wrong sample_world sample_env sample_request sample_user]
    by simp
qed

text \<open>
  Claim C5. For a user that exists and is inactive, \<open>login\<close> fails with the "Account has
  been deactivated" \<open>ForbiddenException\<close>, which is not the exception of invalid
  credentials, with no hash verification and no audit event. For an active user with a
  wrong password it makes the \<open>USER_LOGIN_FAILED\<close> audit call and fails with the "Invalid
  credentials" \<open>UnauthorizedException\<close>.
\<close>

theorem C5_login_failures:
  "(find (\<lambda>u. email u = trim (toLowerCase (dto_email dto))) (users w) = Some u
      \<and> \<not> is_active u \<longrightarrow>
      fst (login env dto req w) = Inl (ForbiddenException ''Account has been deactivated'')
      \<and> fst (login env dto req w) \<noteq> Inl (UnauthorizedException ''Invalid credentials'')
      \<and> filter is_verify (trace (snd (login env dto req w))) = filter is_verify (trace w)
      \<and> audit_actions (trace (snd (login env dto req w))) = audit_actions (trace w))
   \<and> (find (\<lambda>u. email u = trim (toLowerCase (dto_email dto))) (users w) = Some u
        \<and> is_active u
        \<and> argon2_verify env (password_hash u) (dto_password dto) = Inr False \<longrightarrow>
      fst (login env dto req w) = Inl (UnauthorizedException ''Invalid credentials'')
      \<and> trace (snd (login env dto req w)) =
           trace w @ [DbUserFindByEmail (trim (toLowerCase (dto_email dto))),
                      Argon2Verify (password_hash u) (dto_password dto),
                      AuditLog \<lparr>action = ''USER_LOGIN_FAILED'', resource = ''User'',
                                resourceId = Some (user_id u), oldValue = None, newValue = None,
                                performedById = None, ipAddress = Some (req_ip req),
                                userAgent = req_user_agent req\<rparr>])"
  using login_inactive [of dto w u env req] login_wrong_password [of dto w u env req]
  by (simp add: audit_actions_append)

theorem C5_login_failures_witness:
  "find (\<lambda>u. email u = trim (toLowerCase (dto_email dto_wrong))) (users inactive_world) =
       Some (sample_user\<lparr>is_active := False\<rparr>)
   \<and> \<not> is_active (sample_user\<lparr>is_active := False\<rparr>)
   \<and> fst (login sample_env dto_wrong sample_request inactive_world) =
       Inl (ForbiddenException ''Account has been deactivated'')
   \<and> filter is_verify (trace (snd (login sample_env dto_wrong sample_request inactive_world))) = []
   \<and> find (\<lambda>u. email u = trim (toLowerCase (dto_email dto_wrong))) (users sample_world) =
       Some sample_user
   \<and> is_active sample_user
   \<and> argon2_verify sample_env (password_hash sample_user) (dto_password dto_wrong) = Inr False
   \<and> fst (login sample_env dto_wrong sample_request sample_world) =
       Inl (UnauthorizedException ''Invalid credentials'')
   \<and> audit_actions (trace (snd (login sample_env dto_wrong sample_request sample_world))) =
       [''USER_LOGIN_FAILED'']"
proof -
  have a: "find (\<lambda>u. email u = trim (toLowerCase (dto_email dto_wrong))) (users inactive_world) =
       Some (sample_user\<lparr>is_active := False\<rparr>)"
    by (simp add: dto_wrong_def inactive_world_def sample_world_def sample_user_def trim_def
        toLowerCase_def lower_char_def js_whitespace_def char_of_def bit_0)
  have b: "find (\<lambda>u. email u = trim (toLowerCase (dto_email dto_wrong))) (users sample_world) =
       Some sample_user"
    by (simp add: dto_wrong_def sample_world_def sample_user_def trim_def toLowerCase_def
        lower_char_def js_whitespace_def char_of_def bit_0)
  have c: "is_active sample_user" "\<not> is_active (sample_user\<lparr>is_active := False\<rparr>)"
    "argon2_verify sample_env (password_hash sample_user) (dto_password dto_wrong) = Inr False"
    "trace sample_world = []" "trace inactive_world = []"
    by (simp_all add: sample_user_def sample_env_def sample_verify_def dto_wrong_def
        PLACEHOLDER_HASH_def sample_world_def inactive_world_def)
  show ?thesis
    using a b c
      C5_login_failures [of dto_wrong inactive_world "sample_user\<lparr>is_active := False\<rparr>"
        sample_env sample_request]
      C5_login_failures [of dto_wrong sample_world sample_user sample_env sample_request]
    by simp
qed

section \<open>Logout\<close>

lemma logout_ok:
  assumes "session_store_err w = None"
  shows "fst (logout req w) = Inr ()"
    and "sessions (snd (logout req w)) = (sessions w)(req_session_id req := None)"
    and "session_store_err (snd (logout req w)) = None"
    and "users (snd (logout req w)) = users w"
    and "trace (snd (logout req w)) =
           trace w @ SessionDestroy (req_session_id req) #
             (case sessions w (req_session_id req) of
                None \<Rightarrow> []
              | Some su \<Rightarrow>
                  [AuditLog \<lparr>action = ''USER_LOGOUT'', resource = ''User'',
                             resourceId = Some (su_id su), oldValue = None, newValue = None,
                             performedById = Some (su_id su), ipAddress = Some (req_ip req),
                             userAgent = req_user_agent req\<rparr>])"
  using assms
  by (simp_all add: logout_def session_destroy_def audit_log_def audit_input_def Let_def
      split: option.splits)

text \<open>
  Claim C6. With the session store answering, \<open>logout\<close> returns normally and removes the
  session entry whether or not it held a payload; a following \<open>getSessionUser\<close> on the
  same session identifier returns \<open>null\<close>; a second \<open>logout\<close> on it returns normally as
  well. The \<open>USER_LOGOUT\<close> audit call, with the id of the former payload, is made exactly
  when a payload existed, so the second \<open>logout\<close> makes none.
\<close>

theorem C6_logout_idempotent:
  assumes "session_store_err w = None" and "req_session_id req2 = req_session_id req"
  shows "fst (logout req w) = Inr ()
       \<and> sessions (snd (logout req w)) = (sessions w)(req_session_id req := None)
       \<and> fst (getSessionUser req2 (snd (logout req w))) = None
       \<and> fst (logout req2 (snd (logout req w))) = Inr ()
       \<and> trace (snd (logout req w)) =
           trace w @ SessionDestroy (req_session_id req) #
             (case sessions w (req_session_id req) of
                None \<Rightarrow> []
              | Some su \<Rightarrow>
                  [AuditLog \<lparr>action = ''USER_LOGOUT'', resource = ''User'',
                             resourceId = Some (su_id su), oldValue = None, newValue = None,
                             performedById = Some (su_id su), ipAddress = Some (req_ip req),
                             userAgent = req_user_agent req\<rparr>])
       \<and> trace (snd (logout req2 (snd (logout req w)))) =
           trace (snd (logout req w)) @ [SessionDestroy (req_session_id req)]"
proof -
  let ?w1 = "snd (logout req w)"
  note first = logout_ok [OF assms(1), of req]
  have gone: "sessions ?w1 (req_session_id req2) = None"
    using first(2) assms(2) by simp
  note second = logout_ok [OF first(3), of req2]
  have "fst (getSessionUser req2 ?w1) = None"
    using gone by (simp add: getSessionUser_def)
  moreover have "trace (snd (logout req2 ?w1)) = trace ?w1 @ [SessionDestroy (req_session_id req)]"
    using second(5) gone assms(2) by simp
  ultimately show ?thesis using first(1,2,5) second(1) by simp
qed

theorem C6_logout_idempotent_witness:
  "session_store_err sample_world = None
   \<and> fst (logout sample_request sample_world) = Inr ()
   \<and> sessions (snd (logout sample_request sample_world)) ''s1'' = None
   \<and> fst (getSessionUser sample_request (snd (logout sample_request sample_world))) = None
   \<and> fst (logout sample_request (snd (logout sample_request sample_world))) = Inr ()
   \<and> audit_actions (trace (snd (logout sample_request sample_world))) = [''USER_LOGOUT'']
   \<and> audit_actions (trace (snd (logout sample_request (snd (logout sample_request sample_world)))))
       = [''USER_LOGOUT'']"
proof -
  have a: "session_store_err sample_world = None" "req_session_id sample_request = ''s1''"
    "sessions sample_world ''s1'' = Some sample_session" "trace sample_world = []"
    by (simp_all add: sample_world_def sample_request_def)
  show ?thesis
    using a C6_logout_idempotent [of sample_world sample_request sample_request]
    by simp
qed

text \<open>
  Through the route \<open>POST /auth/logout\<close> the second request does not reach
  \<open>AuthService.logout\<close>: \<open>AuthGuard\<close> rejects it, the session being gone.
\<close>

lemma logout_route_after_logout:
  assumes "session_store_err w = None" and "req_session_id req2 = req_session_id req"
  shows "AuthController_logout req2 (snd (logout req w)) =
           (Inl (UnauthorizedException ''Session expired or invalid''), snd (logout req w))"
proof -
  have "sessions (snd (logout req w)) (req_session_id req2) = None"
    using logout_ok(2) [OF assms(1), of req] assms(2) by simp
  then show ?thesis
    by (simp add: AuthController_logout_def AuthGuard_canActivate_def getSessionUser_def)
qed

section \<open>Role check\<close>

text \<open>
  Claim C7. For a caller with \<open>request.user\<close> set: a route without role metadata, or
  with an empty list, lets the caller pass; with a non-empty list the caller passes if
  and only if the caller's role is in the list, and otherwise is rejected with a
  \<open>ForbiddenException\<close> whose message lists the required roles. Membership alone
  decides: no role stands for another.
\<close>

theorem C7_roles_guard:
  "RolesGuard_canActivate None (Some u) = Inr True
   \<and> RolesGuard_canActivate (Some []) (Some u) = Inr True
   \<and> (rs \<noteq> [] \<longrightarrow>
        (RolesGuard_canActivate (Some rs) (Some u) = Inr True \<longleftrightarrow> user_role u \<in> set rs)
        \<and> (user_role u \<notin> set rs \<longrightarrow>
             RolesGuard_canActivate (Some rs) (Some u) =
               Inl (ForbiddenException
                      (''Access denied. Required roles: '' @ join '', '' (map role_name rs)))))"
  by (simp add: RolesGuard_canActivate_def)

theorem C7_roles_guard_witness:
  "[MANAGER] \<noteq> []
   \<and> user_role (sample_user\<lparr>user_role := FRONT_DESK\<rparr>) \<notin> set [MANAGER]
   \<and> RolesGuard_canActivate (Some [MANAGER]) (Some (sample_user\<lparr>user_role := FRONT_DESK\<rparr>)) =
       Inl (ForbiddenException ''Access denied. Required roles: MANAGER'')
   \<and> user_role sample_user \<in> set [MANAGER]
   \<and> RolesGuard_canActivate (Some [MANAGER]) (Some sample_user) = Inr True
   \<and> user_role (sample_user\<lparr>user_role := OWNER\<rparr>) \<notin> set [MANAGER]
   \<and> RolesGuard_canActivate (Some [MANAGER]) (Some (sample_user\<lparr>user_role := OWNER\<rparr>)) \<noteq> Inr True
   \<and> RolesGuard_canActivate (Some []) (Some (sample_user\<lparr>user_role := KITCHEN\<rparr>)) = Inr True"
  using C7_roles_guard [of "sample_user\<lparr>user_role := FRONT_DESK\<rparr>" "[MANAGER]"]
        C7_roles_guard [of sample_user "[MANAGER]"]
        C7_roles_guard [of "sample_user\<lparr>user_role := OWNER\<rparr>" "[MANAGER]"]
        C7_roles_guard [of "sample_user\<lparr>user_role := KITCHEN\<rparr>" "[MANAGER]"]
  by (simp add: sample_user_def)

section \<open>Revocation\<close>

text \<open>
  Claim C9. \<open>revokeAllSessionsForUser\<close> changes the world only by its one audit call
  (\<open>USER_SESSIONS_REVOKED\<close>: the call in the trace, and the row if the audit table
  accepts it); the session store and the user table are as before, and nothing of them
  enters the result.
\<close>

theorem C9_revoke_only_audits:
  "revokeAllSessionsForUser t p ip w =
     w\<lparr>audit_rows :=
          (if audit_up w
           then audit_rows w @
                  [\<lparr>action = ''USER_SESSIONS_REVOKED'', resource = ''User'', resourceId = Some t,
                    oldValue = None, newValue = None, performedById = Some p, ipAddress = ip,
                    userAgent = None\<rparr>]
           else audit_rows w),
        trace := trace w @
                  [AuditLog \<lparr>action = ''USER_SESSIONS_REVOKED'', resource = ''User'',
                             resourceId = Some t, oldValue = None, newValue = None,
                             performedById = Some p, ipAddress = ip, userAgent = None\<rparr>]\<rparr>
   \<and> sessions (revokeAllSessionsForUser t p ip w) = sessions w
   \<and> users (revokeAllSessionsForUser t p ip w) = users w
   \<and> session_store_err (revokeAllSessionsForUser t p ip w) = session_store_err w
   \<and> isUpdating (revokeAllSessionsForUser t p ip w) = isUpdating w"
  by (simp add: revokeAllSessionsForUser_def audit_log_def audit_input_def Let_def)

theorem C9_revoke_only_audits_witness:
  "sessions (revokeAllSessionsForUser ''u1'' ''u0'' None sample_world) ''s1'' = Some sample_session
   \<and> users (revokeAllSessionsForUser ''u1'' ''u0'' None sample_world) = [sample_user]
   \<and> audit_actions (trace (revokeAllSessionsForUser ''u1'' ''u0'' None sample_world)) =
       [''USER_SESSIONS_REVOKED'']"
  using C9_revoke_only_audits [of "''u1''" "''u0''" None sample_world]
  by (simp add: sample_world_def)

end
